theory Spec2Isabelle
  imports Main
begin

section \<open>Go values: errors, panics, results\<close>

text \<open>
  A Go \<^verbatim>\<open>error\<close> is \<open>error option\<close> (\<open>None\<close> is \<^verbatim>\<open>nil\<close>).  The two
  errors of package \<^verbatim>\<open>context\<close> are named; every other error is an opaque value
  of a collaborator.  A function either returns its tuple of results or panics.
\<close>

datatype error = Canceled | DeadlineExceeded | Err string

datatype panic = NilDereference | Raised error

datatype 'a outcome = Return 'a | Panic panic

text \<open>\<^verbatim>\<open>kit.E(err)\<close>: panics with the error when it is not nil.\<close>

definition kit_E :: "error option \<Rightarrow> unit outcome" where
  "kit_E err = (case err of None \<Rightarrow> Return () | Some e \<Rightarrow> Panic (Raised e))"

section \<open>Package context\<close>

text \<open>
  Package \<^verbatim>\<open>context\<close> of the Go standard library, as its documentation describes
  it: a context is done once it, or a context it was derived from, is cancelled or times
  out, and \<^verbatim>\<open>Err\<close> keeps the first cause.
  A context is an immutable value that points to its parent; what changes is whether
  it was cancelled.  The number is the identity of the context among the children of
  one parent.  A \<open>timerCtx\<close> carries the timeout it was created with; its timer firing
  is a step of the environment (\<open>expire\<close> below).  A cancel function is the context it
  cancels.
\<close>

type_synonym duration = int

datatype "context" = Background | cancelCtx nat "context" | timerCtx nat duration "context"

type_synonym CancelFunc = "context"

text \<open>The cancellable contexts from \<open>c\<close> up to the root; \<^verbatim>\<open>Background\<close> is never done.\<close>

fun chain :: "context \<Rightarrow> context list" where
  "chain Background = []"
| "chain (cancelCtx k p) = cancelCtx k p # chain p"
| "chain (timerCtx k d p) = timerCtx k d p # chain p"

text \<open>
  The cancellations so far, oldest first.  \<^verbatim>\<open>ctx.Err()\<close> is the error of the first
  cancellation that reached the context: its own or an ancestor's.
\<close>

fun ctx_Err :: "(context \<times> error) list \<Rightarrow> context \<Rightarrow> error option" where
  "ctx_Err [] c = None"
| "ctx_Err ((a, e) # cs) c = (if a \<in> set (chain c) then Some e else ctx_Err cs c)"

section \<open>Data of the control protocol\<close>

text \<open>
  \<^verbatim>\<open>cdp.Object\<close> is a map from names to values; the requests of this file carry at
  most one entry.  A \<^verbatim>\<open>kit.JSONResult\<close> is known by what its accessors return:
  \<^verbatim>\<open>String()\<close>, \<^verbatim>\<open>Get(key)\<close> and \<^verbatim>\<open>Array()\<close>.
\<close>

datatype pval = PString string | PBool bool

type_synonym Object = "(string \<times> pval) list"

record Request =
  Method :: string
  Params :: "Object option"

datatype JSONResult =
  JSONResult (String: string) (members: "(string \<times> JSONResult) list") (Array: "JSONResult list")

definition Get :: "JSONResult \<Rightarrow> string \<Rightarrow> JSONResult" where
  "Get r k = (case map_of (members r) k of Some v \<Rightarrow> v | None \<Rightarrow> JSONResult [] [] [])"

section \<open>Browser, Page and the world they live in\<close>

type_synonym addr = nat

text \<open>The fields of a \<^verbatim>\<open>Page\<close> that \<^verbatim>\<open>Browser.page\<close> sets.  \<^verbatim>\<open>Mouse\<close>, \<^verbatim>\<open>Keyboard\<close> and
  the lock are fresh objects that only point back to the page.\<close>

record Page =
  ctx :: "context option"
  browser :: addr
  TargetID :: string

record Browser =
  controlURL :: string
  viewport :: "Object option"
  slowmotion :: duration
  trace :: bool
  ctx :: "context option"
  timeoutCancel :: "CancelFunc option"
  close :: "CancelFunc option"
  client :: "nat option"
  event :: "nat option"

text \<open>
  What the code of this file asks of its collaborators, in the order it asks.
\<close>

datatype invocation =
    Resolve string
  | Launch
  | Dial "context option" string
  | Send nat "context option" Request
  | InitSession Page
  | Navigate Page string

text \<open>
  The collaborators whose code is elsewhere: the launcher, the transport
  (\<^verbatim>\<open>cdp.New\<close>, \<^verbatim>\<open>Client.Call\<close>), \<^verbatim>\<open>trySlowmotion\<close>, the two methods of
  \<^verbatim>\<open>Page\<close> and the event filter \<^verbatim>\<open>Method\<close>.  They are parameters: each acts on
  the state \<open>'e\<close> of everything outside this file (the remote endpoint, the
  connection, the session of a page) and returns what the Go function returns.
\<close>

record ('e, 'v) env =
  launcher_GetWebSocketDebuggerURL :: "string \<Rightarrow> 'e \<Rightarrow> (string \<times> error option) \<times> 'e"
  launcher_LaunchE :: "'e \<Rightarrow> (string \<times> error option) \<times> 'e"
  cdp_New :: "context option \<Rightarrow> string \<Rightarrow> 'e \<Rightarrow> (nat \<times> error option) \<times> 'e"
  client_Call :: "nat \<Rightarrow> context option \<Rightarrow> Request \<Rightarrow> 'e \<Rightarrow> (JSONResult \<times> error option) \<times> 'e"
  trySlowmotion :: "Browser \<Rightarrow> string \<Rightarrow> 'e \<Rightarrow> 'e"
  page_initSession :: "Browser \<Rightarrow> Page \<Rightarrow> 'e \<Rightarrow> error option \<times> 'e"
  page_NavigateE :: "Browser \<Rightarrow> Page \<Rightarrow> string \<Rightarrow> 'e \<Rightarrow> error option \<times> 'e"
  Method_filter :: "string \<Rightarrow> 'v \<Rightarrow> bool"

text \<open>
  One wait of \<^verbatim>\<open>WaitEventE\<close>.  \<^verbatim>\<open>kit.All\<close> starts a goroutine for the closure of
  lines 194 to 199, so the wait is only \<open>Spawned\<close> when \<^verbatim>\<open>WaitEventE\<close> returns.  When
  the goroutine runs, it reads \<^verbatim>\<open>b.Event()\<close> and subscribes (\<open>Subscribed\<close>, with the
  observable it subscribed to) or panics on a nil observable (\<open>Crashed\<close>: a panic in a
  goroutine ends the program).  When \<^verbatim>\<open>Until\<close> has returned, the wait is \<open>Returned\<close>.
  The record holds the browser and the context of the wait, the filter, and the two
  variables \<^verbatim>\<open>event\<close> and \<^verbatim>\<open>err\<close> of the closure.
\<close>

datatype phase = Spawned | Subscribed | Returned | Crashed

record 'v waiter =
  wbrowser :: addr
  observable :: "nat option"
  wctx :: "context"
  filter_fn :: "'v \<Rightarrow> bool"
  event_var :: "'v option"
  err_var :: "error option"
  phase :: phase

text \<open>A wait is registered with its observable from its subscription until \<^verbatim>\<open>Until\<close>
  returns.\<close>

definition waiting :: "'v waiter \<Rightarrow> bool" where
  "waiting wt = (phase wt = Subscribed)"

record ('e, 'v) world =
  heap :: "Browser list"
  cancels :: "(context \<times> error) list"
  next_id :: nat
  remote :: 'e
  calls :: "invocation list"
  waiters :: "'v waiter list"

section \<open>Contexts: creation and cancellation\<close>

text \<open>
  \<^verbatim>\<open>context.WithCancel(parent)\<close> and \<^verbatim>\<open>context.WithTimeout(parent, d)\<close> return
  a fresh child and its cancel function.  A timeout that is not positive has expired
  when the call returns.
\<close>

definition WithCancel ::
  "context \<Rightarrow> ('e, 'v) world \<Rightarrow> (context \<times> CancelFunc) \<times> ('e, 'v) world" where
  "WithCancel parent w =
     (let c = cancelCtx (next_id w) parent
      in ((c, c), w\<lparr>next_id := Suc (next_id w)\<rparr>))"

definition WithTimeout ::
  "context \<Rightarrow> duration \<Rightarrow> ('e, 'v) world \<Rightarrow> (context \<times> CancelFunc) \<times> ('e, 'v) world" where
  "WithTimeout parent d w =
     (let c = timerCtx (next_id w) d parent;
          w1 = w\<lparr>next_id := Suc (next_id w)\<rparr>
      in ((c, c),
          if d \<le> 0 then w1\<lparr>cancels := cancels w1 @ [(c, DeadlineExceeded)]\<rparr> else w1))"

text \<open>
  Modelled from the spec: \<^verbatim>\<open>Observable.Until(ctx, check)\<close> of package kit, section
  4.2 (``suspends until a matching event is published or ctx is cancelled; returns the
  matching event or a cancellation outcome'').  \<open>settle\<close> is the branch of the wait
  that sees its context done: \<^verbatim>\<open>Until\<close> returns \<^verbatim>\<open>ctx.Err()\<close>, which line 195
  stores in \<^verbatim>\<open>err\<close>.
\<close>

definition settle :: "(context \<times> error) list \<Rightarrow> 'v waiter \<Rightarrow> 'v waiter" where
  "settle cs wt =
     (if phase wt = Subscribed then
        (case ctx_Err cs (wctx wt) of
           None \<Rightarrow> wt
         | Some e \<Rightarrow> wt\<lparr>err_var := Some e, phase := Returned\<rparr>)
      else wt)"

text \<open>Calling a cancel function, and a timer firing: every wait subscribed under the context
  returns.\<close>

definition finish :: "context \<Rightarrow> error \<Rightarrow> ('e, 'v) world \<Rightarrow> ('e, 'v) world" where
  "finish c e w =
     (let cs = cancels w @ [(c, e)]
      in w\<lparr>cancels := cs, waiters := map (settle cs) (waiters w)\<rparr>)"

definition cancel :: "CancelFunc \<Rightarrow> ('e, 'v) world \<Rightarrow> ('e, 'v) world" where
  "cancel c w = finish c Canceled w"

definition expire :: "context \<Rightarrow> ('e, 'v) world \<Rightarrow> ('e, 'v) world" where
  "expire c w = finish c DeadlineExceeded w"

section \<open>browser.go: construction and configuration\<close>

text \<open>
  A \<^verbatim>\<open>*Browser\<close> is an index into the heap.  A method called on a pointer that is
  not allocated panics, as a nil receiver does at its first field access.
\<close>

definition New :: "('e, 'v) world \<Rightarrow> addr \<times> ('e, 'v) world" where
  "New w =
     (length (heap w),
      w\<lparr>heap := heap w @
          [\<lparr>controlURL = [], viewport = None, slowmotion = 0, trace = False, ctx = None,
            timeoutCancel = None, close = None, client = None, event = None\<rparr>]\<rparr>)"

definition ControlURL :: "addr \<Rightarrow> string \<Rightarrow> ('e, 'v) world \<Rightarrow> addr outcome \<times> ('e, 'v) world" where
  "ControlURL b url w =
     (if b < length (heap w)
      then (Return b, w\<lparr>heap := (heap w)[b := (heap w ! b)\<lparr>controlURL := url\<rparr>]\<rparr>)
      else (Panic NilDereference, w))"

definition Viewport ::
  "addr \<Rightarrow> Object option \<Rightarrow> ('e, 'v) world \<Rightarrow> addr outcome \<times> ('e, 'v) world" where
  "Viewport b opts w =
     (if b < length (heap w)
      then (Return b, w\<lparr>heap := (heap w)[b := (heap w ! b)\<lparr>viewport := opts\<rparr>]\<rparr>)
      else (Panic NilDereference, w))"

definition Slowmotion ::
  "addr \<Rightarrow> duration \<Rightarrow> ('e, 'v) world \<Rightarrow> addr outcome \<times> ('e, 'v) world" where
  "Slowmotion b delay w =
     (if b < length (heap w)
      then (Return b, w\<lparr>heap := (heap w)[b := (heap w ! b)\<lparr>slowmotion := delay\<rparr>]\<rparr>)
      else (Panic NilDereference, w))"

definition Trace :: "addr \<Rightarrow> bool \<Rightarrow> ('e, 'v) world \<Rightarrow> addr outcome \<times> ('e, 'v) world" where
  "Trace b enable w =
     (if b < length (heap w)
      then (Return b, w\<lparr>heap := (heap w)[b := (heap w ! b)\<lparr>trace := enable\<rparr>]\<rparr>)
      else (Panic NilDereference, w))"

section \<open>browser.go: Context and Timeout\<close>

text \<open>\<^verbatim>\<open>newObj := *b; newObj.ctx = ctx; return &newObj\<close>\<close>

definition Context ::
  "addr \<Rightarrow> context option \<Rightarrow> ('e, 'v) world \<Rightarrow> addr outcome \<times> ('e, 'v) world" where
  "Context b c w =
     (if b < length (heap w)
      then (let newObj = (heap w ! b)\<lparr>ctx := c\<rparr>
            in (Return (length (heap w)), w\<lparr>heap := heap w @ [newObj]\<rparr>))
      else (Panic NilDereference, w))"

text \<open>
  \<^verbatim>\<open>ctx, cancel := context.WithTimeout(b.ctx, d); b.timeoutCancel = cancel;
  return b.Context(ctx)\<close>.  \<^verbatim>\<open>WithTimeout\<close> panics on a nil parent.
\<close>

definition Timeout ::
  "addr \<Rightarrow> duration \<Rightarrow> ('e, 'v) world \<Rightarrow> addr outcome \<times> ('e, 'v) world" where
  "Timeout b d w =
     (if b < length (heap w) then
        (case ctx (heap w ! b) of
           None \<Rightarrow> (Panic NilDereference, w)
         | Some parent \<Rightarrow>
             (let ((c, cancel), w1) = WithTimeout parent d w;
                  w2 = w1\<lparr>heap := (heap w1)[b := (heap w1 ! b)\<lparr>timeoutCancel := Some cancel\<rparr>]\<rparr>
              in Context b (Some c) w2))
      else (Panic NilDereference, w))"

section \<open>browser.go: Call, ConnectE, CloseE\<close>

text \<open>
  \<^verbatim>\<open>b.trySlowmotion(req.Method); return b.client.Call(b.ctx, req)\<close>.  A nil client
  is dereferenced by the call.
\<close>

definition Call ::
  "('e, 'v) env \<Rightarrow> addr \<Rightarrow> Request \<Rightarrow> ('e, 'v) world
     \<Rightarrow> (JSONResult \<times> error option) outcome \<times> ('e, 'v) world" where
  "Call env b req w =
     (if b < length (heap w) then
        (let bv = heap w ! b;
             w1 = w\<lparr>remote := trySlowmotion env bv (Method req) (remote w)\<rparr>
         in (case client bv of
               None \<Rightarrow> (Panic NilDereference, w1)
             | Some cl \<Rightarrow>
                 (let (r, e) = client_Call env cl (ctx bv) req (remote w1)
                  in (Return r, w1\<lparr>remote := e, calls := calls w1 @ [Send cl (ctx bv) req]\<rparr>))))
      else (Panic NilDereference, w))"

text \<open>
  \<^verbatim>\<open>initEvents\<close>: a new observable, the goroutine that publishes the client's
  events on it (the environment's step \<open>Publish\<close> below), and the discovery call.
\<close>

definition initEvents ::
  "('e, 'v) env \<Rightarrow> addr \<Rightarrow> ('e, 'v) world \<Rightarrow> error option outcome \<times> ('e, 'v) world" where
  "initEvents env b w =
     (if b < length (heap w) then
        (let w1 = w\<lparr>heap := (heap w)[b := (heap w ! b)\<lparr>event := Some (next_id w)\<rparr>],
                    next_id := Suc (next_id w)\<rparr>
         in (case Call env b \<lparr>Method = ''Target.setDiscoverTargets'',
                              Params = Some [(''discover'', PBool True)]\<rparr> w1 of
               (Panic p, w2) \<Rightarrow> (Panic p, w2)
             | (Return (_, err), w2) \<Rightarrow> (Return err, w2)))
      else (Panic NilDereference, w))"

definition ConnectE ::
  "('e, 'v) env \<Rightarrow> addr \<Rightarrow> ('e, 'v) world \<Rightarrow> error option outcome \<times> ('e, 'v) world" where
  "ConnectE env b w =
     (if b < length (heap w) then
        (let w1 = (if ctx (heap w ! b) = None then
                     (let ((c, cancel), w') = WithCancel Background w
                      in w'\<lparr>heap := (heap w')[b := (heap w' ! b)\<lparr>ctx := Some c, close := Some cancel\<rparr>]\<rparr>)
                   else w);
             url = controlURL (heap w1 ! b);
             ((_, err), e1) = launcher_GetWebSocketDebuggerURL env url (remote w1);
             w2 = w1\<lparr>remote := e1, calls := calls w1 @ [Resolve url]\<rparr>;
             (lerr, w4) =
               (case err of
                  None \<Rightarrow> (None, w2)
                | Some _ \<Rightarrow>
                    (let ((u, err), e2) = launcher_LaunchE env (remote w2);
                         w3 = w2\<lparr>remote := e2, calls := calls w2 @ [Launch]\<rparr>
                     in (case err of
                           Some er \<Rightarrow> (Some er, w3)
                         | None \<Rightarrow>
                             (None, w3\<lparr>heap := (heap w3)[b := (heap w3 ! b)\<lparr>controlURL := u\<rparr>]\<rparr>))))
         in (case lerr of
               Some er \<Rightarrow> (Return (Some er), w4)
             | None \<Rightarrow>
                 (let bv = heap w4 ! b;
                      ((cl, err), e3) = cdp_New env (ctx bv) (controlURL bv) (remote w4);
                      w5 = w4\<lparr>remote := e3, calls := calls w4 @ [Dial (ctx bv) (controlURL bv)]\<rparr>
                  in (case err of
                        Some er \<Rightarrow> (Return (Some er), w5)
                      | None \<Rightarrow>
                          initEvents env b (w5\<lparr>heap := (heap w5)[b := bv\<lparr>client := Some cl\<rparr>]\<rparr>)))))
      else (Panic NilDereference, w))"

definition CloseE ::
  "('e, 'v) env \<Rightarrow> addr \<Rightarrow> ('e, 'v) world \<Rightarrow> error option outcome \<times> ('e, 'v) world" where
  "CloseE env b w =
     (case Call env b \<lparr>Method = ''Browser.close'', Params = None\<rparr> w of
        (Panic p, w1) \<Rightarrow> (Panic p, w1)
      | (Return (_, Some err), w1) \<Rightarrow> (Return (Some err), w1)
      | (Return (_, None), w1) \<Rightarrow>
          (case close (heap w1 ! b) of
             Some c \<Rightarrow> (Return None, cancel c w1)
           | None \<Rightarrow> (Return None, w1)))"

section \<open>browser.go: pages\<close>

text \<open>\<^verbatim>\<open>Browser.page\<close>: builds the handle and returns it with the error of
  \<^verbatim>\<open>page.initSession()\<close>.\<close>

definition page ::
  "('e, 'v) env \<Rightarrow> addr \<Rightarrow> string \<Rightarrow> ('e, 'v) world
     \<Rightarrow> (Page \<times> error option) outcome \<times> ('e, 'v) world" where
  "page env b targetID w =
     (if b < length (heap w) then
        (let pg = \<lparr>Page.ctx = ctx (heap w ! b), browser = b, TargetID = targetID\<rparr>;
             (err, e) = page_initSession env (heap w ! b) pg (remote w)
         in (Return (pg, err), w\<lparr>remote := e, calls := calls w @ [InitSession pg]\<rparr>))
      else (Panic NilDereference, w))"

text \<open>A nil \<^verbatim>\<open>*Page\<close> is \<open>None\<close>.\<close>

definition PageE ::
  "('e, 'v) env \<Rightarrow> addr \<Rightarrow> string \<Rightarrow> ('e, 'v) world
     \<Rightarrow> (Page option \<times> error option) outcome \<times> ('e, 'v) world" where
  "PageE env b url w =
     (case Call env b \<lparr>Method = ''Target.createTarget'',
                       Params = Some [(''url'', PString ''about:blank'')]\<rparr> w of
        (Panic p, w1) \<Rightarrow> (Panic p, w1)
      | (Return (_, Some err), w1) \<Rightarrow> (Return (None, Some err), w1)
      | (Return (target, None), w1) \<Rightarrow>
          (case page env b (String (Get target ''targetId'')) w1 of
             (Panic p, w2) \<Rightarrow> (Panic p, w2)
           | (Return (_, Some err), w2) \<Rightarrow> (Return (None, Some err), w2)
           | (Return (pg, None), w2) \<Rightarrow>
               (let (err, e) = page_NavigateE env (heap w2 ! b) pg url (remote w2);
                    w3 = w2\<lparr>remote := e, calls := calls w2 @ [Navigate pg url]\<rparr>
                in (case err of
                      Some er \<Rightarrow> (Return (None, Some er), w3)
                    | None \<Rightarrow> (Return (Some pg, None), w3)))))"

text \<open>The loop of \<^verbatim>\<open>PagesE\<close> over the targets; a nil slice is the empty list.\<close>

fun PagesE_loop ::
  "('e, 'v) env \<Rightarrow> addr \<Rightarrow> JSONResult list \<Rightarrow> Page list \<Rightarrow> ('e, 'v) world
     \<Rightarrow> (Page list \<times> error option) outcome \<times> ('e, 'v) world" where
  "PagesE_loop env b [] pageList w = (Return (pageList, None), w)"
| "PagesE_loop env b (target # rest) pageList w =
     (if String (Get target ''type'') \<noteq> ''page'' then PagesE_loop env b rest pageList w
      else (case page env b (String (Get target ''targetId'')) w of
              (Panic p, w1) \<Rightarrow> (Panic p, w1)
            | (Return (_, Some err), w1) \<Rightarrow> (Return ([], Some err), w1)
            | (Return (pg, None), w1) \<Rightarrow> PagesE_loop env b rest (pageList @ [pg]) w1))"

definition PagesE ::
  "('e, 'v) env \<Rightarrow> addr \<Rightarrow> ('e, 'v) world
     \<Rightarrow> (Page list \<times> error option) outcome \<times> ('e, 'v) world" where
  "PagesE env b w =
     (case Call env b \<lparr>Method = ''Target.getTargets'', Params = None\<rparr> w of
        (Panic p, w1) \<Rightarrow> (Panic p, w1)
      | (Return (_, Some err), w1) \<Rightarrow> (Return ([], Some err), w1)
      | (Return (list, None), w1) \<Rightarrow>
          PagesE_loop env b (Array (Get list ''targetInfos'')) [] w1)"

section \<open>browser.go: waiting for events\<close>

text \<open>
  The closure of lines 195 to 198, run by \<^verbatim>\<open>Until\<close> on each event it receives:
  \<^verbatim>\<open>event = e.(*cdp.Event); return filter(event)\<close>.  When it returns true,
  \<^verbatim>\<open>Until\<close> returns a nil error.
\<close>

definition inspect :: "'v \<Rightarrow> 'v waiter \<Rightarrow> 'v waiter" where
  "inspect e wt =
     (let wt1 = wt\<lparr>event_var := Some e\<rparr>
      in if filter_fn wt1 e then wt1\<lparr>err_var := None, phase := Returned\<rparr> else wt1)"

text \<open>
  Modelled from the spec: \<^verbatim>\<open>Observable.Publish\<close> of package kit, section 4.2 (an
  event is delivered to the waiters registered when it is published; a wait that has not
  subscribed yet never sees it).
\<close>

definition Publish :: "nat \<Rightarrow> 'v \<Rightarrow> ('e, 'v) world \<Rightarrow> ('e, 'v) world" where
  "Publish obs e w =
     w\<lparr>waiters :=
         map (\<lambda>wt. if phase wt = Subscribed \<and> observable wt = Some obs then inspect e wt else wt)
             (waiters w)\<rparr>"

text \<open>
  \<^verbatim>\<open>WaitEventE\<close> derives the child context in the caller (line 191), hands the
  closure to \<^verbatim>\<open>kit.All\<close> and returns the wait accessor, here the index of the wait,
  and the cancel function of the child context.  The wait has not subscribed yet.
\<close>

definition WaitEventE ::
  "addr \<Rightarrow> ('v \<Rightarrow> bool) \<Rightarrow> ('e, 'v) world \<Rightarrow> (nat \<times> CancelFunc) outcome \<times> ('e, 'v) world" where
  "WaitEventE b filter0 w =
     (if b < length (heap w) then
        (case ctx (heap w ! b) of
           None \<Rightarrow> (Panic NilDereference, w)
         | Some parent \<Rightarrow>
             (let ((c, cancel), w1) = WithCancel parent w;
                  wt = \<lparr>wbrowser = b, observable = None, wctx = c, filter_fn = filter0,
                        event_var = None, err_var = None, phase = Spawned\<rparr>
              in (Return (length (waiters w1), cancel), w1\<lparr>waiters := waiters w1 @ [wt]\<rparr>)))
      else (Panic NilDereference, w))"

text \<open>
  The goroutine of a wait runs: \<^verbatim>\<open>b.Event().Until(ctx, ...)\<close> reads the observable of
  the browser and subscribes to it, or panics when it is nil.  Modelled from the spec:
  \<^verbatim>\<open>Until\<close> on a context that is done already returns its error.
\<close>

definition Start :: "nat \<Rightarrow> ('e, 'v) world \<Rightarrow> ('e, 'v) world" where
  "Start i w =
     (if i < length (waiters w) \<and> phase (waiters w ! i) = Spawned then
        (let wt = waiters w ! i
         in (case (if wbrowser wt < length (heap w) then event (heap w ! wbrowser wt) else None) of
               None \<Rightarrow> w\<lparr>waiters := (waiters w)[i := wt\<lparr>phase := Crashed\<rparr>]\<rparr>
             | Some obs \<Rightarrow>
                 w\<lparr>waiters := (waiters w)
                      [i := settle (cancels w) (wt\<lparr>observable := Some obs, phase := Subscribed\<rparr>)]\<rparr>))
      else w)"

text \<open>
  The accessor \<^verbatim>\<open>func() (*cdp.Event, error) { w(); return event, err }\<close>.  \<^verbatim>\<open>w()\<close>
  waits for the goroutine, which runs now if it has not yet; the accessor is \<open>None\<close> while
  \<^verbatim>\<open>w()\<close> blocks.
\<close>

definition WaitEventE_wait ::
  "nat \<Rightarrow> ('e, 'v) world \<Rightarrow> ('v option \<times> error option) option" where
  "WaitEventE_wait i w =
     (let w1 = Start i w
      in if i < length (waiters w1) \<and> phase (waiters w1 ! i) = Returned
         then Some (event_var (waiters w1 ! i), err_var (waiters w1 ! i))
         else None)"

text \<open>What happens around the program: the goroutine of a wait gets to run, events arrive,
  cancel functions are called, timers fire.\<close>

datatype 'v action = Started nat | Published nat 'v | Cancelled "context" | Expired "context"

fun step :: "'v action \<Rightarrow> ('e, 'v) world \<Rightarrow> ('e, 'v) world" where
  "step (Started i) w = Start i w"
| "step (Published obs e) w = Publish obs e w"
| "step (Cancelled c) w = cancel c w"
| "step (Expired c) w = expire c w"

fun run :: "'v action list \<Rightarrow> ('e, 'v) world \<Rightarrow> ('e, 'v) world" where
  "run [] w = w"
| "run (a # as) w = run as (step a w)"

section \<open>browser.go: the convenience forms\<close>

definition Connect ::
  "('e, 'v) env \<Rightarrow> addr \<Rightarrow> ('e, 'v) world \<Rightarrow> addr outcome \<times> ('e, 'v) world" where
  "Connect env b w =
     (case ConnectE env b w of
        (Panic p, w1) \<Rightarrow> (Panic p, w1)
      | (Return err, w1) \<Rightarrow>
          (case kit_E err of Panic p \<Rightarrow> (Panic p, w1) | Return _ \<Rightarrow> (Return b, w1)))"

definition Close ::
  "('e, 'v) env \<Rightarrow> addr \<Rightarrow> ('e, 'v) world \<Rightarrow> unit outcome \<times> ('e, 'v) world" where
  "Close env b w =
     (case CloseE env b w of
        (Panic p, w1) \<Rightarrow> (Panic p, w1)
      | (Return err, w1) \<Rightarrow> (kit_E err, w1))"

definition Page ::
  "('e, 'v) env \<Rightarrow> addr \<Rightarrow> string \<Rightarrow> ('e, 'v) world \<Rightarrow> Page option outcome \<times> ('e, 'v) world" where
  "Page env b url w =
     (case PageE env b url w of
        (Panic p, w1) \<Rightarrow> (Panic p, w1)
      | (Return (pg, err), w1) \<Rightarrow>
          (case kit_E err of Panic p \<Rightarrow> (Panic p, w1) | Return _ \<Rightarrow> (Return pg, w1)))"

definition Pages ::
  "('e, 'v) env \<Rightarrow> addr \<Rightarrow> ('e, 'v) world \<Rightarrow> Page list outcome \<times> ('e, 'v) world" where
  "Pages env b w =
     (case PagesE env b w of
        (Panic p, w1) \<Rightarrow> (Panic p, w1)
      | (Return (list, err), w1) \<Rightarrow>
          (case kit_E err of Panic p \<Rightarrow> (Panic p, w1) | Return _ \<Rightarrow> (Return list, w1)))"

definition WaitEvent ::
  "('e, 'v) env \<Rightarrow> addr \<Rightarrow> string \<Rightarrow> ('e, 'v) world
     \<Rightarrow> (nat \<times> CancelFunc) outcome \<times> ('e, 'v) world" where
  "WaitEvent env b name w = WaitEventE b (Method_filter env name) w"

text \<open>\<^verbatim>\<open>func() *cdp.Event { e, err := w(); kit.E(err); return e }\<close>\<close>

definition WaitEvent_wait :: "nat \<Rightarrow> ('e, 'v) world \<Rightarrow> 'v option outcome option" where
  "WaitEvent_wait i w =
     (case WaitEventE_wait i w of
        None \<Rightarrow> None
      | Some (e, err) \<Rightarrow>
          (case kit_E err of Panic p \<Rightarrow> Some (Panic p) | Return _ \<Rightarrow> Some (Return e)))"

section \<open>Sample worlds and stub collaborators\<close>

text \<open>
  In the samples the state of the outside is the list of targets of the endpoint, each a
  target id with its type, and an event is the name of its method.  The first sample has one
  connected browser at address 0: root context 0, client 0, observable 1.
\<close>

definition connected_world :: "((string \<times> string) list, string) world" where
  "connected_world =
     \<lparr>heap = [\<lparr>controlURL = ''ws://h'', viewport = None, slowmotion = 0, trace = False,
               ctx = Some (cancelCtx 0 Background), timeoutCancel = None,
               close = Some (cancelCtx 0 Background), client = Some 0, event = Some 1\<rparr>],
      cancels = [], next_id = 2, remote = [], calls = [], waiters = []\<rparr>"

definition never :: "string \<Rightarrow> bool" where
  "never e = False"

text \<open>The browser at 0 derives the browser at 1 with a timeout of 5, and a wait that never
  matches is started under the derived browser.\<close>

definition timeout_world :: "((string \<times> string) list, string) world" where
  "timeout_world = snd (WaitEventE 1 never (snd (Timeout 0 5 connected_world)))"

text \<open>
  A stub of the collaborators, for the samples.  The launcher, the dial, the control
  calls, the session of a page and the navigation each answer the error given for them.
  A successful \<^verbatim>\<open>Target.createTarget\<close> adds a page with id \<open>T1\<close> to the targets of
  the endpoint and answers its id; \<^verbatim>\<open>Target.getTargets\<close> answers the targets.
\<close>

record answers =
  resolve_err :: "error option"
  launch_err :: "error option"
  dial_err :: "error option"
  call_err :: "error option"
  init_err :: "error option"
  navigate_err :: "error option"

definition accepts :: answers where
  "accepts = \<lparr>resolve_err = None, launch_err = None, dial_err = None, call_err = None,
               init_err = None, navigate_err = None\<rparr>"

definition js :: "string \<Rightarrow> JSONResult" where
  "js s = JSONResult s [] []"

definition target_info :: "string \<times> string \<Rightarrow> JSONResult" where
  "target_info t = JSONResult [] [(''targetId'', js (fst t)), (''type'', js (snd t))] []"

definition stub_Call ::
  "answers \<Rightarrow> nat \<Rightarrow> context option \<Rightarrow> Request \<Rightarrow> (string \<times> string) list
     \<Rightarrow> (JSONResult \<times> error option) \<times> (string \<times> string) list" where
  "stub_Call a cl c req ts =
     (case call_err a of
        Some er \<Rightarrow> ((js [], Some er), ts)
      | None \<Rightarrow>
          (if Method req = ''Target.createTarget''
           then ((JSONResult [] [(''targetId'', js ''T1'')] [], None), ts @ [(''T1'', ''page'')])
           else if Method req = ''Target.getTargets''
           then ((JSONResult [] [(''targetInfos'', JSONResult [] [] (map target_info ts))] [], None),
                 ts)
           else ((js [], None), ts)))"

definition stub :: "answers \<Rightarrow> ((string \<times> string) list, string) env" where
  "stub a =
     \<lparr>launcher_GetWebSocketDebuggerURL = (\<lambda>url ts. ((url, resolve_err a), ts)),
      launcher_LaunchE = (\<lambda>ts. ((''ws://launched'', launch_err a), ts)),
      cdp_New = (\<lambda>c url ts. ((0, dial_err a), ts)),
      client_Call = stub_Call a,
      trySlowmotion = (\<lambda>bv m ts. ts),
      page_initSession = (\<lambda>bv pg ts. (init_err a, ts)),
      page_NavigateE = (\<lambda>bv pg url ts. (navigate_err a, ts)),
      Method_filter = (\<lambda>name e. e = name)\<rparr>"

text \<open>An empty world; and a browser at 1 that was given the context of its caller by
  \<open>Context\<close> and then connected.\<close>

definition empty_world :: "((string \<times> string) list, string) world" where
  "empty_world = \<lparr>heap = [], cancels = [], next_id = 0, remote = [], calls = [], waiters = []\<rparr>"

definition supplied_ctx_world :: "((string \<times> string) list, string) world" where
  "supplied_ctx_world =
     snd (ConnectE (stub accepts) 1
            (snd (Context 0 (Some (cancelCtx 9 Background)) (snd (New empty_world)))))"

text \<open>Answers of the stub: a closed connection, a refused session, a rejected navigation.\<close>

definition closed_connection :: answers where
  "closed_connection = accepts\<lparr>call_err := Some (Err ''connection closed'')\<rparr>"

definition attach_refused :: answers where
  "attach_refused = accepts\<lparr>init_err := Some (Err ''attach refused'')\<rparr>"

definition navigate_rejected :: answers where
  "navigate_rejected = accepts\<lparr>navigate_err := Some (Err ''navigate rejected'')\<rparr>"

text \<open>The connected browser with an endpoint that has two pages and a worker.\<close>

definition listed_world :: "((string \<times> string) list, string) world" where
  "listed_world =
     connected_world\<lparr>remote := [(''T1'', ''page''), (''W1'', ''service_worker''), (''T2'', ''page'')]\<rparr>"

text \<open>Collaborators that accept everything but the session of the page \<open>T2\<close>.\<close>

definition refuses_T2 :: "((string \<times> string) list, string) env" where
  "refuses_T2 =
     (stub accepts)\<lparr>page_initSession :=
        (\<lambda>bv pg ts. (if TargetID pg = ''T2'' then Some (Err ''attach refused'') else None, ts))\<rparr>"

text \<open>The loop over a list of targets continues, after a prefix it handled without error,
  with the pages and the world the prefix left.\<close>

text \<open>The world after a \<open>PageE\<close> whose navigation was rejected.\<close>

definition dangling_world :: "((string \<times> string) list, string) world" where
  "dangling_world = snd (PageE (stub navigate_rejected) 0 ''https://example.com'' connected_world)"

text \<open>Answers of the stub: no endpoint at the control url, and no browser to launch either.
  \<open>new_world\<close> has one browser, fresh from \<open>New\<close>.\<close>

definition no_endpoint :: answers where
  "no_endpoint = accepts\<lparr>resolve_err := Some (Err ''no endpoint'')\<rparr>"

definition no_browser :: answers where
  "no_browser = accepts\<lparr>resolve_err := Some (Err ''no endpoint''),
                        launch_err := Some (Err ''no browser'')\<rparr>"

definition new_world :: "((string \<times> string) list, string) world" where
  "new_world = snd (New empty_world)"

text \<open>The connected browser with a wait for the event \<open>B\<close>.\<close>

definition waiting_world :: "((string \<times> string) list, string) world" where
  "waiting_world = snd (WaitEventE 0 (Method_filter (stub accepts) ''B'') connected_world)"

section \<open>The convenience form, as the specification words it\<close>

text \<open>
  ``Each is offered in an explicit-failure form (returns success/failure) and a convenience
  form (aborts the calling process on failure), both backed by the same explicit-failure
  core.''  \<open>convenience\<close> takes the outcome of the explicit form: it aborts with the error
  when there is one and returns the success value otherwise.
\<close>

definition abort_on_failure :: "'a \<times> error option \<Rightarrow> 'a outcome" where
  "abort_on_failure r = (case r of (v, None) \<Rightarrow> Return v | (v, Some e) \<Rightarrow> Panic (Raised e))"

definition convenience :: "('a \<times> error option) outcome \<Rightarrow> 'a outcome" where
  "convenience r = (case r of Panic p \<Rightarrow> Panic p | Return x \<Rightarrow> abort_on_failure x)"

section \<open>Invariants of one wait, for the proofs\<close>

text \<open>
  The wait \<open>i\<close> of browser \<open>b\<close>, with context \<open>c\<close> and filter \<open>f\<close>, has matched no event
  so far: it has not started, or it is subscribed to the observable of the browser, or it
  has returned an error.
\<close>

definition unmatched ::
  "addr \<Rightarrow> nat \<Rightarrow> context \<Rightarrow> ('v \<Rightarrow> bool) \<Rightarrow> nat \<Rightarrow> ('e, 'v) world \<Rightarrow> bool" where
  "unmatched b obs c f i w =
     (b < length (heap w) \<and> event (heap w ! b) = Some obs \<and> i < length (waiters w)
      \<and> wbrowser (waiters w ! i) = b \<and> wctx (waiters w ! i) = c \<and> filter_fn (waiters w ! i) = f
      \<and> (phase (waiters w ! i) = Spawned \<and> event_var (waiters w ! i) = None
          \<or> phase (waiters w ! i) = Subscribed \<and> observable (waiters w ! i) = Some obs
          \<or> phase (waiters w ! i) = Returned \<and> err_var (waiters w ! i) \<noteq> None))"

text \<open>The same wait once its context is done: it has not started, or it has returned an
  error.\<close>

definition called_off ::
  "addr \<Rightarrow> nat \<Rightarrow> context \<Rightarrow> nat \<Rightarrow> ('e, 'v) world \<Rightarrow> bool" where
  "called_off b obs c i w =
     (b < length (heap w) \<and> event (heap w ! b) = Some obs \<and> i < length (waiters w)
      \<and> wbrowser (waiters w ! i) = b \<and> wctx (waiters w ! i) = c
      \<and> ctx_Err (cancels w) c \<noteq> None
      \<and> (phase (waiters w ! i) = Spawned \<and> event_var (waiters w ! i) = None
          \<or> phase (waiters w ! i) = Returned \<and> err_var (waiters w ! i) \<noteq> None))"

section \<open>Cancellation reaches descendants only\<close>

lemma chain_size: "x \<in> set (chain p) \<Longrightarrow> size x \<le> size p"
  by (induction p) auto

lemma child_not_in_chain:
  "cancelCtx k p \<notin> set (chain p)" "timerCtx k d p \<notin> set (chain p)"
  using chain_size [of "cancelCtx k p" p] chain_size [of "timerCtx k d p" p] by auto

lemma chain_self: "c \<noteq> Background \<Longrightarrow> c \<in> set (chain c)"
  by (cases c) auto

lemma chain_trans: "a \<in> set (chain c) \<Longrightarrow> set (chain a) \<subseteq> set (chain c)"
  by (induction c) auto

lemma ctx_Err_append:
  "ctx_Err (cs @ [(a, e)]) c =
     (case ctx_Err cs c of Some x \<Rightarrow> Some x
      | None \<Rightarrow> if a \<in> set (chain c) then Some e else None)"
  by (induction cs) auto

lemma cancels_finish: "cancels (finish c e w) = cancels w @ [(c, e)]"
  by (simp add: finish_def Let_def)

lemma settle_done:
  "ctx_Err cs (wctx wt) \<noteq> None \<Longrightarrow> \<not> waiting (settle cs wt)"
  by (auto simp: settle_def waiting_def split: option.splits)

lemma finish_releases:
  assumes "wt \<in> set (waiters (finish a e w))" and "a \<in> set (chain (wctx wt))"
  shows "\<not> waiting wt"
proof -
  from assms(1) obtain wt0 where wt0: "wt0 \<in> set (waiters w)"
    and wt: "wt = settle (cancels w @ [(a, e)]) wt0"
    by (auto simp: finish_def Let_def)
  have same: "wctx wt = wctx wt0"
    by (simp add: wt settle_def split: option.splits)
  have "ctx_Err (cancels w @ [(a, e)]) (wctx wt0) \<noteq> None"
    using assms(2) same by (simp add: ctx_Err_append split: option.splits)
  then show ?thesis unfolding wt by (rule settle_done)
qed

section \<open>Context and Timeout\<close>

lemma Context_eq:
  "b < length (heap w) \<Longrightarrow>
   Context b c w = (Return (length (heap w)), w\<lparr>heap := heap w @ [(heap w ! b)\<lparr>ctx := c\<rparr>]\<rparr>)"
  by (simp add: Context_def)

lemma Timeout_eq:
  "b < length (heap w) \<Longrightarrow> ctx (heap w ! b) = Some parent \<Longrightarrow>
   Timeout b d w =
     (Return (length (heap w)),
      w\<lparr>next_id := Suc (next_id w),
        cancels := (if d \<le> 0
                    then cancels w @ [(timerCtx (next_id w) d parent, DeadlineExceeded)]
                    else cancels w),
        heap := (heap w)[b := (heap w ! b)
                           \<lparr>timeoutCancel := Some (timerCtx (next_id w) d parent)\<rparr>]
                @ [(heap w ! b)\<lparr>timeoutCancel := Some (timerCtx (next_id w) d parent),
                                 ctx := Some (timerCtx (next_id w) d parent)\<rparr>]\<rparr>)"
  by (simp add: Context_def Timeout_def WithTimeout_def Let_def)

lemma timeout_world_eq:
  "timeout_world =
     \<lparr>heap = [\<lparr>controlURL = ''ws://h'', viewport = None, slowmotion = 0, trace = False,
               ctx = Some (cancelCtx 0 Background),
               timeoutCancel = Some (timerCtx 2 5 (cancelCtx 0 Background)),
               close = Some (cancelCtx 0 Background), client = Some 0, event = Some 1\<rparr>,
              \<lparr>controlURL = ''ws://h'', viewport = None, slowmotion = 0, trace = False,
               ctx = Some (timerCtx 2 5 (cancelCtx 0 Background)),
               timeoutCancel = Some (timerCtx 2 5 (cancelCtx 0 Background)),
               close = Some (cancelCtx 0 Background), client = Some 0, event = Some 1\<rparr>],
      cancels = [], next_id = 4, remote = [], calls = [],
      waiters = [\<lparr>wbrowser = 1, observable = None,
                  wctx = cancelCtx 3 (timerCtx 2 5 (cancelCtx 0 Background)),
                  filter_fn = never, event_var = None, err_var = None, phase = Spawned\<rparr>]\<rparr>"
  by (simp add: timeout_world_def connected_world_def Timeout_def WithTimeout_def Context_def
      WaitEventE_def WithCancel_def Let_def)

text \<open>
  C1, as the code has it.  \<open>Context\<close> returns a freshly allocated browser that equals the
  receiver in every field but \<open>ctx\<close>, the client included, and changes nothing else in the
  world: the receiver and every other browser keep all their fields.  \<open>Timeout\<close>, on a
  receiver whose context is not nil, returns a freshly allocated browser that equals the
  receiver in every field but \<open>ctx\<close> and \<open>timeoutCancel\<close>; it leaves every other browser
  alone, and the receiver keeps every field but \<open>timeoutCancel\<close>, which now holds the cancel
  function of the new timer context.
\<close>

theorem derived_copy:
  assumes "b < length (heap w)"
  shows "Context b c w =
           (Return (length (heap w)), w\<lparr>heap := heap w @ [(heap w ! b)\<lparr>ctx := c\<rparr>]\<rparr>)
       \<and> (ctx (heap w ! b) = Some parent \<longrightarrow>
            Timeout b d w =
              (Return (length (heap w)),
               w\<lparr>next_id := Suc (next_id w),
                 cancels := (if d \<le> 0
                             then cancels w @ [(timerCtx (next_id w) d parent, DeadlineExceeded)]
                             else cancels w),
                 heap := (heap w)[b := (heap w ! b)
                                    \<lparr>timeoutCancel := Some (timerCtx (next_id w) d parent)\<rparr>]
                         @ [(heap w ! b)\<lparr>timeoutCancel := Some (timerCtx (next_id w) d parent),
                                          ctx := Some (timerCtx (next_id w) d parent)\<rparr>]\<rparr>))"
  using assms by (simp add: Context_eq Timeout_eq)

text \<open>The theorem at the connected browser: both derivations return address 1 and share
  client 0; \<open>Context\<close> leaves browser 0 as it was, \<open>Timeout\<close> changes its
  \<open>timeoutCancel\<close> only.\<close>

theorem derived_copy_witness:
  "0 < length (heap connected_world)
   \<and> ctx (heap connected_world ! 0) = Some (cancelCtx 0 Background)
   \<and> fst (Context 0 (Some Background) connected_world) = Return 1
   \<and> heap (snd (Context 0 (Some Background) connected_world)) ! 0 = heap connected_world ! 0
   \<and> client (heap (snd (Context 0 (Some Background) connected_world)) ! 1) = Some 0
   \<and> fst (Timeout 0 5 connected_world) = Return 1
   \<and> heap (snd (Timeout 0 5 connected_world)) ! 0 =
       (heap connected_world ! 0)\<lparr>timeoutCancel := Some (timerCtx 2 5 (cancelCtx 0 Background))\<rparr>
   \<and> client (heap (snd (Timeout 0 5 connected_world)) ! 1) = Some 0"
  using derived_copy [of 0 connected_world "Some Background" "cancelCtx 0 Background" 5]
  by (simp add: connected_world_def)

text \<open>C1 as stated fails: \<open>Timeout\<close> overwrites the field \<open>timeoutCancel\<close> of the browser it
  is called on (line 101).\<close>

theorem Timeout_writes_receiver:
  "fst (Timeout 0 5 connected_world) = Return 1
   \<and> timeoutCancel (heap connected_world ! 0) = None
   \<and> timeoutCancel (heap (snd (Timeout 0 5 connected_world)) ! 0) =
       Some (timerCtx 2 5 (cancelCtx 0 Background))"
  by (simp add: connected_world_def Timeout_def WithTimeout_def Context_def Let_def)

text \<open>
  C2, as the code has it.  For \<open>d = b.Timeout(dur)\<close> the scope of \<open>d\<close> is a child of the
  scope of \<open>b\<close>: cancelling it never changes the state of the scope of \<open>b\<close>, and
  cancelling the scope of \<open>b\<close> (a context other than \<open>Background\<close>, which has no cancel
  function) makes the scope of \<open>d\<close> done and makes every wait under it return, in any later
  world \<open>w2\<close>: no wait under it stays registered, and each one that was registered has
  returned with an error.  For \<open>d = b.Context(c')\<close> the scope of \<open>d\<close> is \<open>c'\<close> itself: cancelling
  the scope of \<open>b\<close> makes it done exactly when \<open>c'\<close> is that scope or descends from it
  (or was done before), and cancelling \<open>c'\<close> leaves the scope of \<open>b\<close> as it was exactly when
  \<open>c'\<close> is neither that scope nor one of its ancestors (or that scope was done before).
\<close>

theorem scope_propagation:
  assumes "b < length (heap w)" and "ctx (heap w ! b) = Some parent"
  shows "(Timeout b d w = (Return n, w1) \<longrightarrow>
           (\<exists>c. ctx (heap w1 ! n) = Some c \<and> ctx (heap w1 ! b) = Some parent
              \<and> ctx_Err (cancels (cancel c w2)) parent = ctx_Err (cancels w2) parent
              \<and> (parent \<noteq> Background \<longrightarrow>
                   ctx_Err (cancels (cancel parent w2)) c \<noteq> None
                   \<and> (\<forall>wt \<in> set (waiters (cancel parent w2)).
                         c \<in> set (chain (wctx wt)) \<longrightarrow> \<not> waiting wt)
                   \<and> (\<forall>i < length (waiters w2).
                         waiting (waiters w2 ! i) \<and> c \<in> set (chain (wctx (waiters w2 ! i)))
                         \<longrightarrow> phase (waiters (cancel parent w2) ! i) = Returned
                             \<and> err_var (waiters (cancel parent w2) ! i) \<noteq> None))))
       \<and> (Context b (Some c') w = (Return n, w1) \<longrightarrow>
            ctx (heap w1 ! n) = Some c' \<and> ctx (heap w1 ! b) = Some parent
            \<and> (ctx_Err (cancels (cancel parent w2)) c' \<noteq> None
                 \<longleftrightarrow> parent \<in> set (chain c') \<or> ctx_Err (cancels w2) c' \<noteq> None)
            \<and> (ctx_Err (cancels (cancel c' w2)) parent = ctx_Err (cancels w2) parent
                 \<longleftrightarrow> c' \<notin> set (chain parent) \<or> ctx_Err (cancels w2) parent \<noteq> None))"
proof (intro conjI impI)
  assume t: "Timeout b d w = (Return n, w1)"
  let ?c = "timerCtx (next_id w) d parent"
  from t assms have n: "n = length (heap w)"
    and h: "heap w1 = (heap w)[b := (heap w ! b)\<lparr>timeoutCancel := Some ?c\<rparr>]
               @ [(heap w ! b)\<lparr>timeoutCancel := Some ?c, ctx := Some ?c\<rparr>]"
    by (auto simp: Timeout_eq)
  have c1: "ctx (heap w1 ! n) = Some ?c" by (simp add: n h nth_append)
  have c2: "ctx (heap w1 ! b) = Some parent" using assms by (simp add: h nth_append)
  have c3: "ctx_Err (cancels (cancel ?c w2)) parent = ctx_Err (cancels w2) parent"
    by (simp add: cancel_def cancels_finish ctx_Err_append child_not_in_chain split: option.splits)
  have c4: "ctx_Err (cancels (cancel parent w2)) ?c \<noteq> None" if "parent \<noteq> Background"
    using chain_self [OF that]
    by (simp add: cancel_def cancels_finish ctx_Err_append split: option.splits)
  have c5: "\<forall>wt \<in> set (waiters (cancel parent w2)). ?c \<in> set (chain (wctx wt)) \<longrightarrow> \<not> waiting wt"
    if "parent \<noteq> Background"
  proof (intro ballI impI)
    fix wt
    assume wt: "wt \<in> set (waiters (cancel parent w2))"
      and in_chain: "?c \<in> set (chain (wctx wt))"
    from in_chain have "set (chain ?c) \<subseteq> set (chain (wctx wt))" by (rule chain_trans)
    then have "parent \<in> set (chain (wctx wt))" using chain_self [OF that] by auto
    with wt show "\<not> waiting wt" unfolding cancel_def by (rule finish_releases)
  qed
  have c6: "\<forall>i < length (waiters w2).
              waiting (waiters w2 ! i) \<and> ?c \<in> set (chain (wctx (waiters w2 ! i)))
              \<longrightarrow> phase (waiters (cancel parent w2) ! i) = Returned
                  \<and> err_var (waiters (cancel parent w2) ! i) \<noteq> None"
    if "parent \<noteq> Background"
  proof (intro allI impI)
    fix i
    assume i: "i < length (waiters w2)"
      and a: "waiting (waiters w2 ! i) \<and> ?c \<in> set (chain (wctx (waiters w2 ! i)))"
    from a have "set (chain ?c) \<subseteq> set (chain (wctx (waiters w2 ! i)))"
      by (intro chain_trans) simp
    then have "parent \<in> set (chain (wctx (waiters w2 ! i)))" using chain_self [OF that] by auto
    then have "ctx_Err (cancels w2 @ [(parent, Canceled)]) (wctx (waiters w2 ! i)) \<noteq> None"
      by (simp add: ctx_Err_append split: option.splits)
    with i a show "phase (waiters (cancel parent w2) ! i) = Returned
                  \<and> err_var (waiters (cancel parent w2) ! i) \<noteq> None"
      by (auto simp: cancel_def finish_def Let_def settle_def waiting_def split: option.splits)
  qed
  show "\<exists>c. ctx (heap w1 ! n) = Some c \<and> ctx (heap w1 ! b) = Some parent
              \<and> ctx_Err (cancels (cancel c w2)) parent = ctx_Err (cancels w2) parent
              \<and> (parent \<noteq> Background \<longrightarrow>
                   ctx_Err (cancels (cancel parent w2)) c \<noteq> None
                   \<and> (\<forall>wt \<in> set (waiters (cancel parent w2)).
                         c \<in> set (chain (wctx wt)) \<longrightarrow> \<not> waiting wt)
                   \<and> (\<forall>i < length (waiters w2).
                         waiting (waiters w2 ! i) \<and> c \<in> set (chain (wctx (waiters w2 ! i)))
                         \<longrightarrow> phase (waiters (cancel parent w2) ! i) = Returned
                             \<and> err_var (waiters (cancel parent w2) ! i) \<noteq> None))"
    using c1 c2 c3 c4 c5 c6 by blast
next
  assume t: "Context b (Some c') w = (Return n, w1)"
  from t assms have n: "n = length (heap w)"
    and h: "heap w1 = heap w @ [(heap w ! b)\<lparr>ctx := Some c'\<rparr>]"
    by (auto simp: Context_eq)
  show "ctx (heap w1 ! n) = Some c'" by (simp add: n h nth_append)
  show "ctx (heap w1 ! b) = Some parent" using assms by (simp add: h nth_append)
  show "ctx_Err (cancels (cancel parent w2)) c' \<noteq> None
          \<longleftrightarrow> parent \<in> set (chain c') \<or> ctx_Err (cancels w2) c' \<noteq> None"
    by (simp add: cancel_def cancels_finish ctx_Err_append split: option.splits)
  show "ctx_Err (cancels (cancel c' w2)) parent = ctx_Err (cancels w2) parent
          \<longleftrightarrow> c' \<notin> set (chain parent) \<or> ctx_Err (cancels w2) parent \<noteq> None"
    by (auto simp add: cancel_def cancels_finish ctx_Err_append split: option.splits)
qed

text \<open>The theorem at the connected browser and its derivation with a timeout of 5: cancelling
  the derived scope leaves the root active; cancelling the root makes the derived scope done
  and the wait under it, blocked before, returns the cancellation.\<close>

theorem scope_propagation_witness:
  "0 < length (heap connected_world)
   \<and> ctx (heap connected_world ! 0) = Some (cancelCtx 0 Background)
   \<and> Timeout 0 5 connected_world = (Return 1, snd (Timeout 0 5 connected_world))
   \<and> ctx (heap (snd (Timeout 0 5 connected_world)) ! 1) = Some (timerCtx 2 5 (cancelCtx 0 Background))
   \<and> ctx_Err (cancels (cancel (timerCtx 2 5 (cancelCtx 0 Background)) timeout_world))
         (cancelCtx 0 Background) = None
   \<and> ctx_Err (cancels (cancel (cancelCtx 0 Background) timeout_world))
         (timerCtx 2 5 (cancelCtx 0 Background)) = Some Canceled
   \<and> WaitEventE_wait 0 timeout_world = None
   \<and> WaitEventE_wait 0 (cancel (cancelCtx 0 Background) timeout_world) = Some (None, Some Canceled)"
  using scope_propagation [where b = 0 and w = connected_world
      and parent = "cancelCtx 0 Background" and d = 5 and n = 1
      and ?w1.0 = "snd (Timeout 0 5 connected_world)" and ?w2.0 = timeout_world
      and c' = Background]
  by (simp add: timeout_world_eq Timeout_eq connected_world_def cancel_def finish_def settle_def
      WaitEventE_wait_def Start_def Let_def)

text \<open>C2 as stated fails for \<open>Context\<close>: the browser derived with an unrelated context keeps
  an active scope when the scope of its parent is cancelled.\<close>

theorem Context_scope_not_layered:
  "Context 0 (Some (cancelCtx 7 Background)) connected_world
     = (Return 1, snd (Context 0 (Some (cancelCtx 7 Background)) connected_world))
   \<and> ctx (heap (snd (Context 0 (Some (cancelCtx 7 Background)) connected_world)) ! 0)
       = Some (cancelCtx 0 Background)
   \<and> ctx (heap (snd (Context 0 (Some (cancelCtx 7 Background)) connected_world)) ! 1)
       = Some (cancelCtx 7 Background)
   \<and> ctx_Err (cancels (cancel (cancelCtx 0 Background)
         (snd (Context 0 (Some (cancelCtx 7 Background)) connected_world)))) (cancelCtx 0 Background)
       = Some Canceled
   \<and> ctx_Err (cancels (cancel (cancelCtx 0 Background)
         (snd (Context 0 (Some (cancelCtx 7 Background)) connected_world)))) (cancelCtx 7 Background)
       = None"
  by (simp add: connected_world_def Context_def cancel_def finish_def Let_def)

section \<open>Call and CloseE\<close>

lemmas stub_simps = stub_def stub_Call_def accepts_def js_def target_info_def
  closed_connection_def attach_refused_def navigate_rejected_def

lemma Call_eq:
  assumes "b < length (heap w)" and "client (heap w ! b) = Some cl"
    and "client_Call env cl (ctx (heap w ! b)) req
           (trySlowmotion env (heap w ! b) (Method req) (remote w)) = (r, e)"
  shows "Call env b req w =
           (Return r, w\<lparr>remote := e, calls := calls w @ [Send cl (ctx (heap w ! b)) req]\<rparr>)"
  using assms by (simp add: Call_def Let_def)

lemma supplied_ctx_world_eq:
  "supplied_ctx_world =
     \<lparr>heap =
       [\<lparr>controlURL = [], viewport = None, slowmotion = 0, trace = False,
         ctx = None, timeoutCancel = None, close = None, client = None,
         event = None\<rparr>,
        \<lparr>controlURL = [], viewport = None, slowmotion = 0, trace = False,
         ctx = Some (cancelCtx 9 Background), timeoutCancel = None,
         close = None, client = Some 0, event = Some 0\<rparr>],
      cancels = [], next_id = 1, remote = [],
      calls =
       [Resolve [], Dial (Some (cancelCtx 9 Background)) [],
        Send 0 (Some (cancelCtx 9 Background))
         \<lparr>Method = ''Target.setDiscoverTargets'',
            Params = Some [(''discover'', PBool True)]\<rparr>],
      waiters = []\<rparr>"
  by (simp add: supplied_ctx_world_def empty_world_def New_def Context_def ConnectE_def
      initEvents_def Call_def stub_simps Let_def)

text \<open>
  C5, as the code has it.  On a connected browser \<open>CloseE\<close> issues exactly one control
  call, \<^verbatim>\<open>Browser.close\<close> under the context of the browser.  When the call fails,
  \<open>CloseE\<close> returns its error as it is and cancels nothing.  When the call succeeds,
  \<open>CloseE\<close> returns nil after calling the cancel function held in \<open>close\<close>, if there is
  one: that is the root scope \<open>ConnectE\<close> created.  When \<open>close\<close> is nil, nothing is
  cancelled.
\<close>

theorem CloseE_call_then_cancel:
  assumes "b < length (heap w)" and "client (heap w ! b) = Some cl"
    and "client_Call env cl (ctx (heap w ! b)) \<lparr>Method = ''Browser.close'', Params = None\<rparr>
           (trySlowmotion env (heap w ! b) ''Browser.close'' (remote w)) = ((r, err), e)"
    and "w1 = w\<lparr>remote := e, calls := calls w @
           [Send cl (ctx (heap w ! b)) \<lparr>Method = ''Browser.close'', Params = None\<rparr>]\<rparr>"
  shows "(err = Some er \<longrightarrow> CloseE env b w = (Return (Some er), w1))
       \<and> (err = None \<and> close (heap w ! b) = Some c \<longrightarrow>
            CloseE env b w = (Return None, cancel c w1)
            \<and> cancels (cancel c w1) = cancels w @ [(c, Canceled)])
       \<and> (err = None \<and> close (heap w ! b) = None \<longrightarrow> CloseE env b w = (Return None, w1))"
proof -
  have "Call env b \<lparr>Method = ''Browser.close'', Params = None\<rparr> w = (Return (r, err), w1)"
    using assms by (simp add: Call_eq)
  then show ?thesis
    by (simp add: CloseE_def assms(4) cancel_def cancels_finish)
qed

text \<open>The theorem at the connected browser, once with an endpoint that accepts the call
  and once on a closed connection.\<close>

theorem CloseE_call_then_cancel_witness:
  "0 < length (heap connected_world)
   \<and> client (heap connected_world ! 0) = Some 0
   \<and> close (heap connected_world ! 0) = Some (cancelCtx 0 Background)
   \<and> fst (CloseE (stub accepts) 0 connected_world) = Return None
   \<and> calls (snd (CloseE (stub accepts) 0 connected_world)) =
       [Send 0 (Some (cancelCtx 0 Background)) \<lparr>Method = ''Browser.close'', Params = None\<rparr>]
   \<and> cancels (snd (CloseE (stub accepts) 0 connected_world)) = [(cancelCtx 0 Background, Canceled)]
   \<and> fst (CloseE (stub closed_connection) 0 connected_world) = Return (Some (Err ''connection closed''))
   \<and> cancels (snd (CloseE (stub closed_connection) 0 connected_world)) = []"
  using CloseE_call_then_cancel [where b = 0 and w = connected_world and cl = 0
      and env = "stub accepts" and r = "js []" and err = None and e = "[]"
      and c = "cancelCtx 0 Background" and er = Canceled,
      OF _ _ _ refl]
    CloseE_call_then_cancel [where b = 0 and w = connected_world and cl = 0
      and env = "stub closed_connection" and r = "js []" and err = "Some (Err ''connection closed'')"
      and e = "[]" and c = "cancelCtx 0 Background" and er = "Err ''connection closed''",
      OF _ _ _ refl]
  by (simp add: connected_world_def stub_simps cancel_def finish_def)

text \<open>C5 as stated fails on a browser that was connected under a context of its caller
  (\<open>New\<close>, \<open>Context\<close>, \<open>ConnectE\<close>): its \<open>close\<close> is nil, and \<open>CloseE\<close> returns nil with the
  scope of the browser still active.\<close>

theorem CloseE_without_root_cancel:
  "fst (ConnectE (stub accepts) 1
          (snd (Context 0 (Some (cancelCtx 9 Background)) (snd (New empty_world))))) = Return None
   \<and> ctx (heap supplied_ctx_world ! 1) = Some (cancelCtx 9 Background)
   \<and> client (heap supplied_ctx_world ! 1) = Some 0
   \<and> fst (CloseE (stub accepts) 1 supplied_ctx_world) = Return None
   \<and> cancels (snd (CloseE (stub accepts) 1 supplied_ctx_world)) = []
   \<and> ctx_Err (cancels (snd (CloseE (stub accepts) 1 supplied_ctx_world))) (cancelCtx 9 Background)
       = None"
  by (simp add: supplied_ctx_world_eq CloseE_def Call_def stub_simps Let_def
      empty_world_def New_def Context_def ConnectE_def initEvents_def)

section \<open>Pages\<close>

lemma page_eq:
  assumes "b < length (heap w)"
    and "page_initSession env (heap w ! b)
           \<lparr>Page.ctx = ctx (heap w ! b), browser = b, TargetID = tid\<rparr> (remote w) = (err, e)"
  shows "page env b tid w =
           (Return (\<lparr>Page.ctx = ctx (heap w ! b), browser = b, TargetID = tid\<rparr>, err),
            w\<lparr>remote := e,
              calls := calls w @ [InitSession \<lparr>Page.ctx = ctx (heap w ! b), browser = b, TargetID = tid\<rparr>]\<rparr>)"
  using assms by (simp add: page_def Let_def)

lemma PageE_steps:
  assumes b: "b < length (heap w)" and cl: "client (heap w ! b) = Some cl"
    and create: "client_Call env cl (ctx (heap w ! b))
           \<lparr>Method = ''Target.createTarget'', Params = Some [(''url'', PString ''about:blank'')]\<rparr>
           (trySlowmotion env (heap w ! b) ''Target.createTarget'' (remote w)) = ((target, None), e1)"
    and pg: "pg = \<lparr>Page.ctx = ctx (heap w ! b), browser = b,
                   TargetID = String (Get target ''targetId'')\<rparr>"
    and init: "page_initSession env (heap w ! b) pg e1 = (ierr, e2)"
    and nav: "page_NavigateE env (heap w ! b) pg url e2 = (nerr, e3)"
  shows "PageE env b url w =
     (case ierr of
        Some er \<Rightarrow>
          (Return (None, Some er),
           w\<lparr>remote := e2,
             calls := calls w @
               [Send cl (ctx (heap w ! b))
                  \<lparr>Method = ''Target.createTarget'', Params = Some [(''url'', PString ''about:blank'')]\<rparr>,
                InitSession pg]\<rparr>)
      | None \<Rightarrow>
          (Return (case nerr of Some er \<Rightarrow> (None, Some er) | None \<Rightarrow> (Some pg, None)),
           w\<lparr>remote := e3,
             calls := calls w @
               [Send cl (ctx (heap w ! b))
                  \<lparr>Method = ''Target.createTarget'', Params = Some [(''url'', PString ''about:blank'')]\<rparr>,
                InitSession pg, Navigate pg url]\<rparr>))"
proof -
  let ?req = "\<lparr>Method = ''Target.createTarget'', Params = Some [(''url'', PString ''about:blank'')]\<rparr>"
  let ?w1 = "w\<lparr>remote := e1, calls := calls w @ [Send cl (ctx (heap w ! b)) ?req]\<rparr>"
  have c: "Call env b ?req w = (Return (target, None), ?w1)"
    using b cl create by (simp add: Call_eq)
  have p: "page env b (String (Get target ''targetId'')) ?w1 =
             (Return (pg, ierr), ?w1\<lparr>remote := e2, calls := calls ?w1 @ [InitSession pg]\<rparr>)"
    using b init by (simp add: page_eq pg)
  show ?thesis
    using nav by (simp add: PageE_def c p split: option.splits)
qed


lemma page_cases:
  assumes "b < length (heap w)"
  obtains err e where
    "page env b tid w =
       (Return (\<lparr>Page.ctx = ctx (heap w ! b), browser = b, TargetID = tid\<rparr>, err),
        w\<lparr>remote := e,
          calls := calls w @ [InitSession \<lparr>Page.ctx = ctx (heap w ! b), browser = b, TargetID = tid\<rparr>]\<rparr>)"
    "page_initSession env (heap w ! b)
       \<lparr>Page.ctx = ctx (heap w ! b), browser = b, TargetID = tid\<rparr> (remote w) = (err, e)"
proof -
  obtain err e where i: "page_initSession env (heap w ! b)
       \<lparr>Page.ctx = ctx (heap w ! b), browser = b, TargetID = tid\<rparr> (remote w) = (err, e)"
    by (cases "page_initSession env (heap w ! b)
       \<lparr>Page.ctx = ctx (heap w ! b), browser = b, TargetID = tid\<rparr> (remote w)") auto
  from page_eq [OF assms i] i that show thesis by blast
qed

lemma PagesE_loop_ok:
  "b < length (heap w) \<Longrightarrow> PagesE_loop env b ts acc w = (Return (ps, None), w') \<Longrightarrow>
   ps = acc @ map (\<lambda>t. \<lparr>Page.ctx = ctx (heap w ! b), browser = b,
                         TargetID = String (Get t ''targetId'')\<rparr>)
               (filter (\<lambda>t. String (Get t ''type'') = ''page'') ts)
   \<and> calls w' = calls w @ map InitSession
        (map (\<lambda>t. \<lparr>Page.ctx = ctx (heap w ! b), browser = b,
                     TargetID = String (Get t ''targetId'')\<rparr>)
             (filter (\<lambda>t. String (Get t ''type'') = ''page'') ts))
   \<and> heap w' = heap w"
proof (induction ts arbitrary: acc w)
  case Nil
  then show ?case by simp
next
  case (Cons t ts)
  show ?case
  proof (cases "String (Get t ''type'') = ''page''")
    case False
    with Cons show ?thesis by simp
  next
    case True
    from Cons.prems(1) obtain err e where
      p: "page env b (String (Get t ''targetId'')) w =
            (Return (\<lparr>Page.ctx = ctx (heap w ! b), browser = b,
                      TargetID = String (Get t ''targetId'')\<rparr>, err),
             w\<lparr>remote := e, calls := calls w @
               [InitSession \<lparr>Page.ctx = ctx (heap w ! b), browser = b,
                             TargetID = String (Get t ''targetId'')\<rparr>]\<rparr>)"
      by (rule page_cases)
    show ?thesis
    proof (cases err)
      case None
      let ?w1 = "w\<lparr>remote := e, calls := calls w @
               [InitSession \<lparr>Page.ctx = ctx (heap w ! b), browser = b,
                             TargetID = String (Get t ''targetId'')\<rparr>]\<rparr>"
      from Cons.prems(2) True p None
      have "PagesE_loop env b ts
              (acc @ [\<lparr>Page.ctx = ctx (heap w ! b), browser = b,
                        TargetID = String (Get t ''targetId'')\<rparr>]) ?w1 = (Return (ps, None), w')"
        by simp
      from Cons.IH [OF _ this] Cons.prems(1) True show ?thesis by simp
    next
      case (Some er)
      with Cons.prems(2) True p show ?thesis by simp
    qed
  qed
qed

lemma PagesE_loop_err:
  "b < length (heap w) \<Longrightarrow> PagesE_loop env b ts acc w = (Return (ps, Some er), w') \<Longrightarrow>
   ps = [] \<and>
   (\<exists>t \<in> set ts. String (Get t ''type'') = ''page'' \<and>
      (\<exists>e. fst (page_initSession env (heap w ! b)
                  \<lparr>Page.ctx = ctx (heap w ! b), browser = b,
                    TargetID = String (Get t ''targetId'')\<rparr> e) = Some er))"
proof (induction ts arbitrary: acc w)
  case Nil
  then show ?case by simp
next
  case (Cons t ts)
  show ?case
  proof (cases "String (Get t ''type'') = ''page''")
    case False
    with Cons show ?thesis by simp
  next
    case True
    from Cons.prems(1) obtain err e where
      p: "page env b (String (Get t ''targetId'')) w =
            (Return (\<lparr>Page.ctx = ctx (heap w ! b), browser = b,
                      TargetID = String (Get t ''targetId'')\<rparr>, err),
             w\<lparr>remote := e, calls := calls w @
               [InitSession \<lparr>Page.ctx = ctx (heap w ! b), browser = b,
                             TargetID = String (Get t ''targetId'')\<rparr>]\<rparr>)"
      and i: "page_initSession env (heap w ! b)
               \<lparr>Page.ctx = ctx (heap w ! b), browser = b,
                 TargetID = String (Get t ''targetId'')\<rparr> (remote w) = (err, e)"
      by (rule page_cases)
    show ?thesis
    proof (cases err)
      case None
      let ?w1 = "w\<lparr>remote := e, calls := calls w @
               [InitSession \<lparr>Page.ctx = ctx (heap w ! b), browser = b,
                             TargetID = String (Get t ''targetId'')\<rparr>]\<rparr>"
      from Cons.prems(2) True p None
      have "PagesE_loop env b ts
              (acc @ [\<lparr>Page.ctx = ctx (heap w ! b), browser = b,
                        TargetID = String (Get t ''targetId'')\<rparr>]) ?w1 = (Return (ps, Some er), w')"
        by simp
      from Cons.IH [OF _ this] Cons.prems(1) show ?thesis by simp
    next
      case (Some er')
      with Cons.prems(2) True p have "ps = []" "er' = er" by simp_all
      moreover from i Some \<open>er' = er\<close>
      have "fst (page_initSession env (heap w ! b)
               \<lparr>Page.ctx = ctx (heap w ! b), browser = b,
                 TargetID = String (Get t ''targetId'')\<rparr> (remote w)) = Some er" by simp
      ultimately show ?thesis using True by auto
    qed
  qed
qed

lemma PagesE_loop_total:
  "b < length (heap w) \<Longrightarrow>
   \<forall>pg e. fst (page_initSession env (heap w ! b) pg e) = None \<Longrightarrow>
   \<exists>ps w'. PagesE_loop env b ts acc w = (Return (ps, None), w')"
proof (induction ts arbitrary: acc w)
  case Nil
  then show ?case by simp
next
  case (Cons t ts)
  show ?case
  proof (cases "String (Get t ''type'') = ''page''")
    case False
    with Cons show ?thesis by simp
  next
    case True
    from Cons.prems(1) obtain err e where
      p: "page env b (String (Get t ''targetId'')) w =
            (Return (\<lparr>Page.ctx = ctx (heap w ! b), browser = b,
                      TargetID = String (Get t ''targetId'')\<rparr>, err),
             w\<lparr>remote := e, calls := calls w @
               [InitSession \<lparr>Page.ctx = ctx (heap w ! b), browser = b,
                             TargetID = String (Get t ''targetId'')\<rparr>]\<rparr>)"
      and i: "page_initSession env (heap w ! b)
               \<lparr>Page.ctx = ctx (heap w ! b), browser = b,
                 TargetID = String (Get t ''targetId'')\<rparr> (remote w) = (err, e)"
      by (rule page_cases)
    from i Cons.prems(2) have err: "err = None"
      by (metis fst_conv)
    let ?w1 = "w\<lparr>remote := e, calls := calls w @
               [InitSession \<lparr>Page.ctx = ctx (heap w ! b), browser = b,
                             TargetID = String (Get t ''targetId'')\<rparr>]\<rparr>"
    have "\<exists>ps w'. PagesE_loop env b ts
              (acc @ [\<lparr>Page.ctx = ctx (heap w ! b), browser = b,
                        TargetID = String (Get t ''targetId'')\<rparr>]) ?w1 = (Return (ps, None), w')"
      using Cons.prems by (intro Cons.IH) simp_all
    with True p err show ?thesis by simp
  qed
qed

lemma PagesE_loop_no_panic:
  "b < length (heap w) \<Longrightarrow> fst (PagesE_loop env b ts acc w) \<noteq> Panic p"
proof (induction ts arbitrary: acc w)
  case Nil
  then show ?case by simp
next
  case (Cons t ts)
  show ?case
  proof (cases "String (Get t ''type'') = ''page''")
    case False
    with Cons show ?thesis by simp
  next
    case True
    from Cons.prems(1) obtain err e where
      p: "page env b (String (Get t ''targetId'')) w =
            (Return (\<lparr>Page.ctx = ctx (heap w ! b), browser = b,
                      TargetID = String (Get t ''targetId'')\<rparr>, err),
             w\<lparr>remote := e, calls := calls w @
               [InitSession \<lparr>Page.ctx = ctx (heap w ! b), browser = b,
                             TargetID = String (Get t ''targetId'')\<rparr>]\<rparr>)"
      by (rule page_cases)
    show ?thesis
    proof (cases err)
      case None
      with True p Cons.prems Cons.IH show ?thesis by simp
    next
      case (Some er)
      with True p show ?thesis by simp
    qed
  qed
qed


text \<open>
  C3, as the code has it.  On a connected browser, when the endpoint answers the
  create-target call with a target id, \<open>PageE\<close> initialises the session of the new page
  handle, whose \<open>TargetID\<close> is the id answered.  When that initialisation succeeds and the
  navigation is accepted, \<open>PageE\<close> returns that page handle with a nil error, and its
  invocations are, in this order and only these: one \<^verbatim>\<open>Target.createTarget\<close> call for
  \<^verbatim>\<open>about:blank\<close>, the session initialisation of the page and one navigation of that
  page to the url.  When the initialisation fails, \<open>PageE\<close> returns a nil page with that
  error, and its invocations are the create-target call and the session initialisation
  only: it does not navigate.
\<close>

theorem PageE_create_then_navigate:
  assumes "b < length (heap w)" and "client (heap w ! b) = Some cl"
    and "client_Call env cl (ctx (heap w ! b))
           \<lparr>Method = ''Target.createTarget'', Params = Some [(''url'', PString ''about:blank'')]\<rparr>
           (trySlowmotion env (heap w ! b) ''Target.createTarget'' (remote w)) = ((target, None), e1)"
    and "String (Get target ''targetId'') = tid"
    and "pg = \<lparr>Page.ctx = ctx (heap w ! b), browser = b, TargetID = tid\<rparr>"
    and "page_initSession env (heap w ! b) pg e1 = (ierr, e2)"
  shows "(ierr = None \<and> page_NavigateE env (heap w ! b) pg url e2 = (None, e3) \<longrightarrow>
            PageE env b url w =
              (Return (Some pg, None),
               w\<lparr>remote := e3,
                 calls := calls w @
                   [Send cl (ctx (heap w ! b))
                      \<lparr>Method = ''Target.createTarget'',
                        Params = Some [(''url'', PString ''about:blank'')]\<rparr>,
                    InitSession pg, Navigate pg url]\<rparr>))
         \<and> (ierr = Some er \<longrightarrow>
            PageE env b url w =
              (Return (None, Some er),
               w\<lparr>remote := e2,
                 calls := calls w @
                   [Send cl (ctx (heap w ! b))
                      \<lparr>Method = ''Target.createTarget'',
                        Params = Some [(''url'', PString ''about:blank'')]\<rparr>,
                    InitSession pg]\<rparr>))
         \<and> TargetID pg = tid"
proof -
  have pg: "pg = \<lparr>Page.ctx = ctx (heap w ! b), browser = b,
                   TargetID = String (Get target ''targetId'')\<rparr>"
    using assms(4,5) by simp
  obtain nerr e3' where nav: "page_NavigateE env (heap w ! b) pg url e2 = (nerr, e3')"
    by (metis surj_pair)
  note steps = PageE_steps [OF assms(1,2,3) pg assms(6) nav]
  have "PageE env b url w =
              (Return (Some pg, None),
               w\<lparr>remote := e3,
                 calls := calls w @
                   [Send cl (ctx (heap w ! b))
                      \<lparr>Method = ''Target.createTarget'',
                        Params = Some [(''url'', PString ''about:blank'')]\<rparr>,
                    InitSession pg, Navigate pg url]\<rparr>)"
    if "ierr = None \<and> page_NavigateE env (heap w ! b) pg url e2 = (None, e3)"
    using steps that nav by simp
  moreover have "PageE env b url w =
              (Return (None, Some er),
               w\<lparr>remote := e2,
                 calls := calls w @
                   [Send cl (ctx (heap w ! b))
                      \<lparr>Method = ''Target.createTarget'',
                        Params = Some [(''url'', PString ''about:blank'')]\<rparr>,
                    InitSession pg]\<rparr>)"
    if "ierr = Some er"
    using steps that by simp
  moreover have "TargetID pg = tid" using assms(5) by simp
  ultimately show ?thesis by blast
qed

text \<open>The theorem on the stub that answers \<open>T1\<close>: once accepting everything, once refusing
  the session.\<close>

theorem PageE_create_then_navigate_witness:
  "0 < length (heap connected_world)
   \<and> client (heap connected_world ! 0) = Some 0
   \<and> String (Get (JSONResult [] [(''targetId'', js ''T1'')] []) ''targetId'') = ''T1''
   \<and> fst (PageE (stub accepts) 0 ''https://example.com'' connected_world) =
       Return (Some \<lparr>Page.ctx = Some (cancelCtx 0 Background), browser = 0, TargetID = ''T1''\<rparr>, None)
   \<and> calls (snd (PageE (stub accepts) 0 ''https://example.com'' connected_world)) =
       [Send 0 (Some (cancelCtx 0 Background))
          \<lparr>Method = ''Target.createTarget'', Params = Some [(''url'', PString ''about:blank'')]\<rparr>,
        InitSession \<lparr>Page.ctx = Some (cancelCtx 0 Background), browser = 0, TargetID = ''T1''\<rparr>,
        Navigate \<lparr>Page.ctx = Some (cancelCtx 0 Background), browser = 0, TargetID = ''T1''\<rparr>
          ''https://example.com'']
   \<and> page_initSession (stub attach_refused) (heap connected_world ! 0)
        \<lparr>Page.ctx = Some (cancelCtx 0 Background), browser = 0, TargetID = ''T1''\<rparr>
        [(''T1'', ''page'')] = (Some (Err ''attach refused''), [(''T1'', ''page'')])
   \<and> fst (PageE (stub attach_refused) 0 ''https://example.com'' connected_world) =
       Return (None, Some (Err ''attach refused''))
   \<and> calls (snd (PageE (stub attach_refused) 0 ''https://example.com'' connected_world)) =
       [Send 0 (Some (cancelCtx 0 Background))
          \<lparr>Method = ''Target.createTarget'', Params = Some [(''url'', PString ''about:blank'')]\<rparr>,
        InitSession \<lparr>Page.ctx = Some (cancelCtx 0 Background), browser = 0, TargetID = ''T1''\<rparr>]"
proof -
  let ?req = "\<lparr>Method = ''Target.createTarget'', Params = Some [(''url'', PString ''about:blank'')]\<rparr>"
  let ?target = "JSONResult [] [(''targetId'', js ''T1'')] []"
  let ?T1 = "\<lparr>Page.ctx = Some (cancelCtx 0 Background), browser = 0, TargetID = ''T1''\<rparr>"
  have b: "0 < length (heap connected_world)" and cl: "client (heap connected_world ! 0) = Some 0"
    by (simp_all add: connected_world_def)
  have tid: "String (Get ?target ''targetId'') = ''T1''"
    by (simp add: Get_def js_def)
  have pg: "?T1 = \<lparr>Page.ctx = ctx (heap connected_world ! 0), browser = 0, TargetID = ''T1''\<rparr>"
    by (simp add: connected_world_def)
  have create: "client_Call (stub a) 0 (ctx (heap connected_world ! 0)) ?req
           (trySlowmotion (stub a) (heap connected_world ! 0) ''Target.createTarget''
              (remote connected_world)) = ((?target, None), [(''T1'', ''page'')])"
    if "call_err a = None" for a
    using that by (simp add: connected_world_def stub_simps stub_Call_def)
  have init1: "page_initSession (stub accepts) (heap connected_world ! 0) ?T1 [(''T1'', ''page'')]
                 = (None, [(''T1'', ''page'')])"
    and nav1: "page_NavigateE (stub accepts) (heap connected_world ! 0) ?T1 ''https://example.com''
                 [(''T1'', ''page'')] = (None, [(''T1'', ''page'')])"
    and init2: "page_initSession (stub attach_refused) (heap connected_world ! 0) ?T1
                 [(''T1'', ''page'')] = (Some (Err ''attach refused''), [(''T1'', ''page'')])"
    by (simp_all add: stub_simps accepts_def attach_refused_def)
  have a1: "call_err accepts = None" and a2: "call_err attach_refused = None"
    by (simp_all add: accepts_def attach_refused_def)
  from PageE_create_then_navigate [OF b cl create [OF a1] tid pg init1,
      where url = "''https://example.com''" and ?e3.0 = "[(''T1'', ''page'')]"] nav1
  have r1: "PageE (stub accepts) 0 ''https://example.com'' connected_world =
              (Return (Some ?T1, None),
               connected_world\<lparr>remote := [(''T1'', ''page'')],
                 calls := calls connected_world @
                   [Send 0 (ctx (heap connected_world ! 0)) ?req,
                    InitSession ?T1, Navigate ?T1 ''https://example.com'']\<rparr>)"
    by simp
  from PageE_create_then_navigate [OF b cl create [OF a2] tid pg init2,
      where url = "''https://example.com''" and er = "Err ''attach refused''"]
  have r2: "PageE (stub attach_refused) 0 ''https://example.com'' connected_world =
              (Return (None, Some (Err ''attach refused'')),
               connected_world\<lparr>remote := [(''T1'', ''page'')],
                 calls := calls connected_world @
                   [Send 0 (ctx (heap connected_world ! 0)) ?req, InitSession ?T1]\<rparr>)"
    by simp
  from r1 have s1: "fst (PageE (stub accepts) 0 ''https://example.com'' connected_world) =
       Return (Some ?T1, None)"
    and s2: "calls (snd (PageE (stub accepts) 0 ''https://example.com'' connected_world)) =
       [Send 0 (Some (cancelCtx 0 Background)) ?req, InitSession ?T1,
        Navigate ?T1 ''https://example.com'']"
    by (simp_all add: connected_world_def)
  from r2 have s3: "fst (PageE (stub attach_refused) 0 ''https://example.com'' connected_world) =
       Return (None, Some (Err ''attach refused''))"
    and s4: "calls (snd (PageE (stub attach_refused) 0 ''https://example.com'' connected_world)) =
       [Send 0 (Some (cancelCtx 0 Background)) ?req, InitSession ?T1]"
    by (simp_all add: connected_world_def)
  from b cl tid s1 s2 init2 s3 s4 show ?thesis by blast
qed

text \<open>C3 as stated fails: the endpoint answers \<open>T1\<close> and would accept the navigation, but the
  session of the page is refused; \<open>PageE\<close> returns a nil page with that error (lines 136 to
  139) and never navigates.\<close>

theorem PageE_session_refused:
  "client_Call (stub attach_refused) 0 (Some (cancelCtx 0 Background))
       \<lparr>Method = ''Target.createTarget'', Params = Some [(''url'', PString ''about:blank'')]\<rparr> []
     = ((JSONResult [] [(''targetId'', js ''T1'')] [], None), [(''T1'', ''page'')])
   \<and> page_NavigateE (stub attach_refused) (heap connected_world ! 0)
       \<lparr>Page.ctx = Some (cancelCtx 0 Background), browser = 0, TargetID = ''T1''\<rparr>
       ''https://example.com'' [(''T1'', ''page'')] = (None, [(''T1'', ''page'')])
   \<and> fst (PageE (stub attach_refused) 0 ''https://example.com'' connected_world) =
       Return (None, Some (Err ''attach refused''))
   \<and> calls (snd (PageE (stub attach_refused) 0 ''https://example.com'' connected_world)) =
       [Send 0 (Some (cancelCtx 0 Background))
          \<lparr>Method = ''Target.createTarget'', Params = Some [(''url'', PString ''about:blank'')]\<rparr>,
        InitSession \<lparr>Page.ctx = Some (cancelCtx 0 Background), browser = 0, TargetID = ''T1''\<rparr>]"
  by (simp add: connected_world_def stub_simps Get_def PageE_def Call_def page_def Let_def)


lemma PagesE_start:
  assumes "b < length (heap w)" and "client (heap w ! b) = Some cl"
    and "client_Call env cl (ctx (heap w ! b)) \<lparr>Method = ''Target.getTargets'', Params = None\<rparr>
           (trySlowmotion env (heap w ! b) ''Target.getTargets'' (remote w)) = ((list, None), e1)"
  shows "PagesE env b w =
           PagesE_loop env b (Array (Get list ''targetInfos'')) []
             (w\<lparr>remote := e1, calls := calls w @
                [Send cl (ctx (heap w ! b)) \<lparr>Method = ''Target.getTargets'', Params = None\<rparr>]\<rparr>)"
proof -
  have "Call env b \<lparr>Method = ''Target.getTargets'', Params = None\<rparr> w =
          (Return (list, None), w\<lparr>remote := e1, calls := calls w @
                [Send cl (ctx (heap w ! b)) \<lparr>Method = ''Target.getTargets'', Params = None\<rparr>]\<rparr>)"
    using assms by (simp add: Call_eq)
  then show ?thesis by (simp add: PagesE_def)
qed

lemma PagesE_result:
  assumes "b < length (heap w)" and "client (heap w ! b) = Some cl"
    and "client_Call env cl (ctx (heap w ! b)) \<lparr>Method = ''Target.getTargets'', Params = None\<rparr>
           (trySlowmotion env (heap w ! b) ''Target.getTargets'' (remote w)) = ((list, None), e1)"
    and "pages = map (\<lambda>t. \<lparr>Page.ctx = ctx (heap w ! b), browser = b,
                             TargetID = String (Get t ''targetId'')\<rparr>)
                   (filter (\<lambda>t. String (Get t ''type'') = ''page'') (Array (Get list ''targetInfos'')))"
  shows "PagesE env b w = (Return (ps, None), w') \<Longrightarrow>
           ps = pages \<and>
           calls w' = calls w @
             Send cl (ctx (heap w ! b)) \<lparr>Method = ''Target.getTargets'', Params = None\<rparr>
               # map InitSession pages"
    and "PagesE env b w = (Return (ps, Some er), w') \<Longrightarrow>
           ps = [] \<and> (\<exists>pg \<in> set pages. \<exists>e. fst (page_initSession env (heap w ! b) pg e) = Some er)"
    and "\<forall>pg e. fst (page_initSession env (heap w ! b) pg e) = None \<Longrightarrow>
           \<exists>w'. PagesE env b w = (Return (pages, None), w')"
    and "fst (PagesE env b w) \<noteq> Panic p"
proof -
  let ?w1 = "w\<lparr>remote := e1, calls := calls w @
                [Send cl (ctx (heap w ! b)) \<lparr>Method = ''Target.getTargets'', Params = None\<rparr>]\<rparr>"
  have start: "PagesE env b w = PagesE_loop env b (Array (Get list ''targetInfos'')) [] ?w1"
    using assms(1,2,3) by (rule PagesE_start)
  have b1: "b < length (heap ?w1)" and h1: "heap ?w1 ! b = heap w ! b"
    using assms(1) by simp_all
  show "ps = pages \<and>
           calls w' = calls w @
             Send cl (ctx (heap w ! b)) \<lparr>Method = ''Target.getTargets'', Params = None\<rparr>
               # map InitSession pages"
    if "PagesE env b w = (Return (ps, None), w')"
    using PagesE_loop_ok [OF b1, of env "Array (Get list ''targetInfos'')" "[]" ps w'] that
    by (simp add: start assms(4))
  show "ps = [] \<and> (\<exists>pg \<in> set pages. \<exists>e. fst (page_initSession env (heap w ! b) pg e) = Some er)"
    if "PagesE env b w = (Return (ps, Some er), w')"
    using PagesE_loop_err [OF b1, of env "Array (Get list ''targetInfos'')" "[]" ps er w'] that
    by (auto simp add: start assms(4))
  show "\<exists>w'. PagesE env b w = (Return (pages, None), w')"
    if a: "\<forall>pg e. fst (page_initSession env (heap w ! b) pg e) = None"
  proof -
    from a have "\<forall>pg e. fst (page_initSession env (heap ?w1 ! b) pg e) = None" by simp
    from PagesE_loop_total [OF b1 this, of "Array (Get list ''targetInfos'')" "[]"]
    obtain ps w' where r: "PagesE_loop env b (Array (Get list ''targetInfos'')) [] ?w1
                         = (Return (ps, None), w')" by blast
    from PagesE_loop_ok [OF b1 r] have "ps = pages" by (simp add: assms(4))
    with r start show ?thesis by simp
  qed
  show "fst (PagesE env b w) \<noteq> Panic p"
    using PagesE_loop_no_panic [OF b1] by (simp add: start)
qed

lemma PagesE_loop_append:
  "b < length (heap w) \<Longrightarrow> PagesE_loop env b ts1 acc w = (Return (ps1, None), w2) \<Longrightarrow>
   PagesE_loop env b (ts1 @ ts2) acc w = PagesE_loop env b ts2 ps1 w2"
proof (induction ts1 arbitrary: acc w)
  case Nil
  then show ?case by simp
next
  case (Cons t ts)
  show ?case
  proof (cases "String (Get t ''type'') = ''page''")
    case False
    with Cons show ?thesis by simp
  next
    case True
    from Cons.prems(1) obtain err e where
      p: "page env b (String (Get t ''targetId'')) w =
            (Return (\<lparr>Page.ctx = ctx (heap w ! b), browser = b,
                      TargetID = String (Get t ''targetId'')\<rparr>, err),
             w\<lparr>remote := e, calls := calls w @
               [InitSession \<lparr>Page.ctx = ctx (heap w ! b), browser = b,
                             TargetID = String (Get t ''targetId'')\<rparr>]\<rparr>)"
      by (rule page_cases)
    show ?thesis
    proof (cases err)
      case None
      let ?w1 = "w\<lparr>remote := e, calls := calls w @
               [InitSession \<lparr>Page.ctx = ctx (heap w ! b), browser = b,
                             TargetID = String (Get t ''targetId'')\<rparr>]\<rparr>"
      from Cons.prems(2) True p None
      have "PagesE_loop env b ts
              (acc @ [\<lparr>Page.ctx = ctx (heap w ! b), browser = b,
                        TargetID = String (Get t ''targetId'')\<rparr>]) ?w1 = (Return (ps1, None), w2)"
        by simp
      from Cons.IH [OF _ this, of] Cons.prems(1) True p None show ?thesis by simp
    next
      case (Some er)
      with Cons.prems(2) True p show ?thesis by simp
    qed
  qed
qed

lemma PagesE_loop_first_failure:
  assumes "b < length (heap w)"
    and "PagesE_loop env b ts1 acc w = (Return (ps1, None), w2)"
    and "String (Get t ''type'') = ''page''"
    and "page_initSession env (heap w ! b)
           \<lparr>Page.ctx = ctx (heap w ! b), browser = b, TargetID = String (Get t ''targetId'')\<rparr>
           (remote w2) = (Some er, e2)"
  shows "PagesE_loop env b (ts1 @ t # ts2) acc w =
           (Return ([], Some er),
            w2\<lparr>remote := e2,
               calls := calls w2 @
                 [InitSession \<lparr>Page.ctx = ctx (heap w ! b), browser = b,
                               TargetID = String (Get t ''targetId'')\<rparr>]\<rparr>)"
proof -
  from PagesE_loop_ok [OF assms(1,2)] have h: "heap w2 = heap w" by simp
  then have b2: "b < length (heap w2)" using assms(1) by simp
  have "page env b (String (Get t ''targetId'')) w2 =
          (Return (\<lparr>Page.ctx = ctx (heap w2 ! b), browser = b,
                    TargetID = String (Get t ''targetId'')\<rparr>, Some er),
           w2\<lparr>remote := e2, calls := calls w2 @
               [InitSession \<lparr>Page.ctx = ctx (heap w2 ! b), browser = b,
                             TargetID = String (Get t ''targetId'')\<rparr>]\<rparr>)"
    using b2 assms(4) by (intro page_eq) (simp_all add: h)
  then show ?thesis
    using assms(3) by (simp add: PagesE_loop_append [OF assms(1,2)] h)
qed

text \<open>When the sessions of the pages before \<open>pg\<close> succeed and the session of \<open>pg\<close> fails,
  the loop returns no page and the error of \<open>pg\<close>.\<close>

lemma PagesE_loop_fails:
  assumes "b < length (heap w)"
    and "map (\<lambda>t. \<lparr>Page.ctx = ctx (heap w ! b), browser = b,
                     TargetID = String (Get t ''targetId'')\<rparr>)
           (filter (\<lambda>t. String (Get t ''type'') = ''page'') ts) = ok @ pg # rest"
    and "\<forall>p \<in> set ok. \<forall>e. fst (page_initSession env (heap w ! b) p e) = None"
    and "\<forall>e. fst (page_initSession env (heap w ! b) pg e) = Some er"
  shows "fst (PagesE_loop env b ts acc w) = Return ([], Some er)"
  using assms
proof (induction ts arbitrary: ok acc w)
  case Nil
  then show ?case by simp
next
  case (Cons t ts)
  show ?case
  proof (cases "String (Get t ''type'') = ''page''")
    case False
    with Cons.prems show ?thesis by (simp add: Cons.IH)
  next
    case True
    let ?p = "\<lparr>Page.ctx = ctx (heap w ! b), browser = b, TargetID = String (Get t ''targetId'')\<rparr>"
    from Cons.prems(1) obtain err e where
      p: "page env b (String (Get t ''targetId'')) w =
            (Return (?p, err), w\<lparr>remote := e, calls := calls w @ [InitSession ?p]\<rparr>)"
      and i: "page_initSession env (heap w ! b) ?p (remote w) = (err, e)"
      by (rule page_cases)
    let ?w1 = "w\<lparr>remote := e, calls := calls w @ [InitSession ?p]\<rparr>"
    from Cons.prems(2) True
    have hd: "?p # map (\<lambda>t. \<lparr>Page.ctx = ctx (heap w ! b), browser = b,
                     TargetID = String (Get t ''targetId'')\<rparr>)
           (filter (\<lambda>t. String (Get t ''type'') = ''page'') ts) = ok @ pg # rest"
      by simp
    show ?thesis
    proof (cases ok)
      case Nil
      with hd have "?p = pg" by simp
      with i Cons.prems(4) have "err = Some er" by (metis fst_conv)
      with True p show ?thesis by simp
    next
      case (Cons q ok')
      with hd have q: "q = ?p"
        and tl: "map (\<lambda>t. \<lparr>Page.ctx = ctx (heap w ! b), browser = b,
                     TargetID = String (Get t ''targetId'')\<rparr>)
           (filter (\<lambda>t. String (Get t ''type'') = ''page'') ts) = ok' @ pg # rest"
        by simp_all
      from Cons.prems(3) Cons q have "fst (page_initSession env (heap w ! b) ?p (remote w)) = None"
        by simp
      with i have err: "err = None" by simp
      have "fst (PagesE_loop env b ts (acc @ [?p]) ?w1) = Return ([], Some er)"
        using Cons.prems(1,3,4) tl Cons by (intro Cons.IH [where ok = ok']) simp_all
      with True p err show ?thesis by simp
    qed
  qed
qed

lemma PagesE_loop_total_listed:
  "b < length (heap w) \<Longrightarrow>
   \<forall>pg \<in> set (map (\<lambda>t. \<lparr>Page.ctx = ctx (heap w ! b), browser = b,
                            TargetID = String (Get t ''targetId'')\<rparr>)
                  (filter (\<lambda>t. String (Get t ''type'') = ''page'') ts)).
      \<forall>e. fst (page_initSession env (heap w ! b) pg e) = None \<Longrightarrow>
   \<exists>ps w'. PagesE_loop env b ts acc w = (Return (ps, None), w')"
proof (induction ts arbitrary: acc w)
  case Nil
  then show ?case by simp
next
  case (Cons t ts)
  show ?case
  proof (cases "String (Get t ''type'') = ''page''")
    case False
    with Cons show ?thesis by simp
  next
    case True
    let ?p = "\<lparr>Page.ctx = ctx (heap w ! b), browser = b, TargetID = String (Get t ''targetId'')\<rparr>"
    from Cons.prems(1) obtain err e where
      p: "page env b (String (Get t ''targetId'')) w =
            (Return (?p, err), w\<lparr>remote := e, calls := calls w @ [InitSession ?p]\<rparr>)"
      and i: "page_initSession env (heap w ! b) ?p (remote w) = (err, e)"
      by (rule page_cases)
    from Cons.prems(2) True have "fst (page_initSession env (heap w ! b) ?p (remote w)) = None"
      by simp
    with i have err: "err = None" by simp
    let ?w1 = "w\<lparr>remote := e, calls := calls w @ [InitSession ?p]\<rparr>"
    have "\<exists>ps w'. PagesE_loop env b ts (acc @ [?p]) ?w1 = (Return (ps, None), w')"
      using Cons.prems True by (intro Cons.IH) simp_all
    with True p err show ?thesis by simp
  qed
qed

text \<open>
  C6, as the code has it.  On a connected browser whose \<^verbatim>\<open>Target.getTargets\<close> call
  succeeded, \<open>PagesE\<close> never panics, and: when it returns a nil error, the pages are one
  handle for each listed target whose type is \<open>page\<close>, in the order listed, and none for
  any other target, and one session was initialised for each; when it returns an error,
  the list is nil and the error is that of the session of one of those pages; when the
  session of no listed page fails, it returns those pages and a nil error; and when the
  session of a listed page fails and those of the pages listed before it succeed, it
  returns a nil list and the error of that session.  The last is stated twice: for
  collaborators whose answer for a page does not depend on the state of the endpoint, and
  exactly, following the state of the endpoint through the targets before the failing
  one, with the invocations ending at the session that failed.
\<close>

theorem PagesE_lists_page_targets:
  assumes "b < length (heap w)" and "client (heap w ! b) = Some cl"
    and "client_Call env cl (ctx (heap w ! b)) \<lparr>Method = ''Target.getTargets'', Params = None\<rparr>
           (trySlowmotion env (heap w ! b) ''Target.getTargets'' (remote w)) = ((list, None), e1)"
    and "pages = map (\<lambda>t. \<lparr>Page.ctx = ctx (heap w ! b), browser = b,
                             TargetID = String (Get t ''targetId'')\<rparr>)
                   (filter (\<lambda>t. String (Get t ''type'') = ''page'') (Array (Get list ''targetInfos'')))"
    and "w1 = w\<lparr>remote := e1, calls := calls w @
                [Send cl (ctx (heap w ! b)) \<lparr>Method = ''Target.getTargets'', Params = None\<rparr>]\<rparr>"
  shows "(PagesE env b w = (Return (ps, None), w') \<longrightarrow>
            ps = pages \<and>
            calls w' = calls w @
              Send cl (ctx (heap w ! b)) \<lparr>Method = ''Target.getTargets'', Params = None\<rparr>
                # map InitSession pages)
       \<and> (PagesE env b w = (Return (ps, Some er), w') \<longrightarrow>
            ps = [] \<and> (\<exists>pg \<in> set pages. \<exists>e. fst (page_initSession env (heap w ! b) pg e) = Some er))
       \<and> ((\<forall>pg \<in> set pages. \<forall>e. fst (page_initSession env (heap w ! b) pg e) = None) \<longrightarrow>
            (\<exists>w'. PagesE env b w = (Return (pages, None), w')))
       \<and> (pages = ok @ pg # rest
            \<and> (\<forall>p \<in> set ok. \<forall>e. fst (page_initSession env (heap w ! b) p e) = None)
            \<and> (\<forall>e. fst (page_initSession env (heap w ! b) pg e) = Some er)
            \<longrightarrow> fst (PagesE env b w) = Return ([], Some er))
       \<and> (Array (Get list ''targetInfos'') = ts1 @ t # ts2
            \<and> String (Get t ''type'') = ''page''
            \<and> PagesE_loop env b ts1 [] w1 = (Return (ps1, None), w2)
            \<and> page_initSession env (heap w ! b)
                 \<lparr>Page.ctx = ctx (heap w ! b), browser = b, TargetID = String (Get t ''targetId'')\<rparr>
                 (remote w2) = (Some er, e2)
            \<longrightarrow> PagesE env b w =
                  (Return ([], Some er),
                   w2\<lparr>remote := e2,
                      calls := calls w2 @
                        [InitSession \<lparr>Page.ctx = ctx (heap w ! b), browser = b,
                                      TargetID = String (Get t ''targetId'')\<rparr>]\<rparr>))
       \<and> fst (PagesE env b w) \<noteq> Panic p"
proof -
  have start: "PagesE env b w = PagesE_loop env b (Array (Get list ''targetInfos'')) [] w1"
    unfolding assms(5) using assms(1,2,3) by (rule PagesE_start)
  have b1: "b < length (heap w1)" and h1: "heap w1 ! b = heap w ! b"
    using assms(1) by (simp_all add: assms(5))
  note old = PagesE_result [OF assms(1,2,3,4)]
  have c3: "\<exists>w'. PagesE env b w = (Return (pages, None), w')"
    if a: "\<forall>pg \<in> set pages. \<forall>e. fst (page_initSession env (heap w ! b) pg e) = None"
  proof -
    from a have "\<forall>pg \<in> set (map (\<lambda>t. \<lparr>Page.ctx = ctx (heap w1 ! b), browser = b,
                            TargetID = String (Get t ''targetId'')\<rparr>)
                  (filter (\<lambda>t. String (Get t ''type'') = ''page'') (Array (Get list ''targetInfos'')))).
      \<forall>e. fst (page_initSession env (heap w1 ! b) pg e) = None"
      by (simp add: h1 assms(4))
    from PagesE_loop_total_listed [OF b1 this, of "[]"]
    obtain ps w' where r: "PagesE_loop env b (Array (Get list ''targetInfos'')) [] w1
                         = (Return (ps, None), w')" by blast
    from PagesE_loop_ok [OF b1 r] have "ps = pages" by (simp add: assms(4) h1)
    with r start show ?thesis by simp
  qed
  have c4: "fst (PagesE env b w) = Return ([], Some er)"
    if a: "pages = ok @ pg # rest
            \<and> (\<forall>p \<in> set ok. \<forall>e. fst (page_initSession env (heap w ! b) p e) = None)
            \<and> (\<forall>e. fst (page_initSession env (heap w ! b) pg e) = Some er)"
    unfolding start
    using a by (intro PagesE_loop_fails [OF b1, where ok = ok and pg = pg and rest = rest])
               (simp_all add: h1 assms(4) [symmetric])
  have c5: "PagesE env b w =
                  (Return ([], Some er),
                   w2\<lparr>remote := e2,
                      calls := calls w2 @
                        [InitSession \<lparr>Page.ctx = ctx (heap w ! b), browser = b,
                                      TargetID = String (Get t ''targetId'')\<rparr>]\<rparr>)"
    if a: "Array (Get list ''targetInfos'') = ts1 @ t # ts2
            \<and> String (Get t ''type'') = ''page''
            \<and> PagesE_loop env b ts1 [] w1 = (Return (ps1, None), w2)
            \<and> page_initSession env (heap w ! b)
                 \<lparr>Page.ctx = ctx (heap w ! b), browser = b, TargetID = String (Get t ''targetId'')\<rparr>
                 (remote w2) = (Some er, e2)"
    using PagesE_loop_first_failure [OF b1, of env ts1 "[]" ps1 w2 t er e2 ts2] a
    by (simp add: start h1)
  from old(1) [of ps w'] old(2) [of ps er w'] c3 c4 c5 old(4) [of p] show ?thesis by blast
qed

text \<open>The theorem on an endpoint that lists a page, a worker and a page: once with every
  session accepted, once with the session of \<open>T2\<close> refused.\<close>

theorem PagesE_lists_page_targets_witness:
  "0 < length (heap listed_world)
   \<and> client (heap listed_world ! 0) = Some 0
   \<and> fst (client_Call (stub accepts) 0 (Some (cancelCtx 0 Background))
             \<lparr>Method = ''Target.getTargets'', Params = None\<rparr> (remote listed_world))
       = (JSONResult [] [(''targetInfos'', JSONResult [] []
            (map target_info [(''T1'', ''page''), (''W1'', ''service_worker''), (''T2'', ''page'')]))] [],
          None)
   \<and> fst (PagesE (stub accepts) 0 listed_world) =
       Return ([\<lparr>Page.ctx = Some (cancelCtx 0 Background), browser = 0, TargetID = ''T1''\<rparr>,
                \<lparr>Page.ctx = Some (cancelCtx 0 Background), browser = 0, TargetID = ''T2''\<rparr>], None)
   \<and> fst (client_Call refuses_T2 0 (Some (cancelCtx 0 Background))
             \<lparr>Method = ''Target.getTargets'', Params = None\<rparr> (remote listed_world))
       = (JSONResult [] [(''targetInfos'', JSONResult [] []
            (map target_info [(''T1'', ''page''), (''W1'', ''service_worker''), (''T2'', ''page'')]))] [],
          None)
   \<and> fst (page_initSession refuses_T2 (heap listed_world ! 0)
            \<lparr>Page.ctx = Some (cancelCtx 0 Background), browser = 0, TargetID = ''T1''\<rparr> []) = None
   \<and> fst (page_initSession refuses_T2 (heap listed_world ! 0)
            \<lparr>Page.ctx = Some (cancelCtx 0 Background), browser = 0, TargetID = ''T2''\<rparr> [])
       = Some (Err ''attach refused'')
   \<and> fst (PagesE refuses_T2 0 listed_world) = Return ([], Some (Err ''attach refused''))"
proof -
  let ?list = "JSONResult [] [(''targetInfos'', JSONResult [] []
            (map target_info [(''T1'', ''page''), (''W1'', ''service_worker''), (''T2'', ''page'')]))] []"
  let ?T1 = "\<lparr>Page.ctx = Some (cancelCtx 0 Background), browser = 0, TargetID = ''T1''\<rparr>"
  let ?T2 = "\<lparr>Page.ctx = Some (cancelCtx 0 Background), browser = 0, TargetID = ''T2''\<rparr>"
  have b: "0 < length (heap listed_world)" and cl: "client (heap listed_world ! 0) = Some 0"
    by (simp_all add: listed_world_def connected_world_def)
  have call: "client_Call (stub accepts) 0 (ctx (heap listed_world ! 0))
           \<lparr>Method = ''Target.getTargets'', Params = None\<rparr>
           (trySlowmotion (stub accepts) (heap listed_world ! 0) ''Target.getTargets''
              (remote listed_world)) = ((?list, None), remote listed_world)"
    by (simp add: listed_world_def connected_world_def stub_simps)
  have call2: "client_Call refuses_T2 0 (ctx (heap listed_world ! 0))
           \<lparr>Method = ''Target.getTargets'', Params = None\<rparr>
           (trySlowmotion refuses_T2 (heap listed_world ! 0) ''Target.getTargets''
              (remote listed_world)) = ((?list, None), remote listed_world)"
    by (simp add: refuses_T2_def listed_world_def connected_world_def stub_simps)
  have pages: "map (\<lambda>t. \<lparr>Page.ctx = ctx (heap listed_world ! 0), browser = 0,
                           TargetID = String (Get t ''targetId'')\<rparr>)
                 (filter (\<lambda>t. String (Get t ''type'') = ''page'')
                    (Array (Get ?list ''targetInfos''))) = [?T1, ?T2]"
    by (simp add: listed_world_def connected_world_def Get_def target_info_def js_def)
  have init: "\<forall>pg \<in> set [?T1, ?T2]. \<forall>e.
                fst (page_initSession (stub accepts) (heap listed_world ! 0) pg e) = None"
    by (simp add: stub_simps)
  have ok: "\<forall>p \<in> set [?T1]. \<forall>e. fst (page_initSession refuses_T2 (heap listed_world ! 0) p e) = None"
    and bad: "\<forall>e. fst (page_initSession refuses_T2 (heap listed_world ! 0) ?T2 e)
                = Some (Err ''attach refused'')"
    by (simp_all add: refuses_T2_def)
  from PagesE_lists_page_targets [OF b cl call pages [symmetric] refl] init
  obtain w' where "PagesE (stub accepts) 0 listed_world = (Return ([?T1, ?T2], None), w')"
    by blast
  then have r1: "fst (PagesE (stub accepts) 0 listed_world) = Return ([?T1, ?T2], None)"
    by simp
  from PagesE_lists_page_targets [OF b cl call2 pages [symmetric] refl,
      where ok = "[?T1]" and pg = ?T2 and rest = "[]" and er = "Err ''attach refused''"] ok bad
  have r2: "fst (PagesE refuses_T2 0 listed_world) = Return ([], Some (Err ''attach refused''))"
    by simp
  from ok bad have i1: "fst (page_initSession refuses_T2 (heap listed_world ! 0) ?T1 []) = None"
    and i2: "fst (page_initSession refuses_T2 (heap listed_world ! 0) ?T2 [])
               = Some (Err ''attach refused'')"
    by simp_all
  from call have c1: "fst (client_Call (stub accepts) 0 (Some (cancelCtx 0 Background))
             \<lparr>Method = ''Target.getTargets'', Params = None\<rparr> (remote listed_world)) = (?list, None)"
    by (simp add: listed_world_def connected_world_def stub_simps)
  from call2 have c2: "fst (client_Call refuses_T2 0 (Some (cancelCtx 0 Background))
             \<lparr>Method = ''Target.getTargets'', Params = None\<rparr> (remote listed_world)) = (?list, None)"
    by (simp add: refuses_T2_def listed_world_def connected_world_def stub_simps)
  from b cl c1 r1 c2 i1 i2 r2 show ?thesis by blast
qed

text \<open>C6 as stated fails: the call \<^verbatim>\<open>Target.getTargets\<close> succeeds and lists two pages,
  the session of the first is refused, and \<open>PagesE\<close> returns no page and that error (lines
  169 to 172).\<close>

theorem PagesE_session_refused:
  "client_Call (stub attach_refused) 0 (Some (cancelCtx 0 Background))
       \<lparr>Method = ''Target.getTargets'', Params = None\<rparr> (remote listed_world)
     = ((JSONResult [] [(''targetInfos'', JSONResult [] []
            (map target_info [(''T1'', ''page''), (''W1'', ''service_worker''), (''T2'', ''page'')]))] [],
         None), remote listed_world)
   \<and> fst (PagesE (stub attach_refused) 0 listed_world) = Return ([], Some (Err ''attach refused''))"
  by (simp add: listed_world_def connected_world_def stub_simps Get_def PagesE_def Call_def
      page_def Let_def)




section \<open>ConnectE\<close>

text \<open>
  C7.  \<open>ConnectE\<close> on an allocated browser asks the launcher whether the control url of
  the browser answers.  When it does, that url is dialled and the launcher is not invoked;
  when it does not, the launcher is invoked and the url it returns is dialled.  After the
  dial, exactly one control call is issued: \<^verbatim>\<open>Target.setDiscoverTargets\<close> with
  \<open>discover\<close> true.  The error returned is the first failure among the launch (when
  needed), the dial and the discovery call, so \<open>ConnectE\<close> returns nil exactly when every
  step succeeded.  \<open>b1\<close>, \<open>b2\<close> and \<open>fb\<close> are the receiver after the writes of lines 62
  and 63, of line 71, and of lines 79 and 245.
\<close>

theorem ConnectE_steps:
  assumes "b < length (heap w)"
    and "c0 = (case ctx (heap w ! b) of None \<Rightarrow> cancelCtx (next_id w) Background | Some c \<Rightarrow> c)"
    and "launcher_GetWebSocketDebuggerURL env (controlURL (heap w ! b)) (remote w) = ((ws, rerr), e1)"
    and "launcher_LaunchE env e1 = ((u, lerr), e2)"
    and "(url, e) = (if rerr = None then (controlURL (heap w ! b), e1) else (u, e2))"
    and "cdp_New env (Some c0) url e = ((cl, derr), e3)"
    and "b1 = (if ctx (heap w ! b) = None
               then (heap w ! b)\<lparr>ctx := Some c0, close := Some c0\<rparr> else heap w ! b)"
    and "b2 = (if rerr = None then b1 else b1\<lparr>controlURL := u\<rparr>)"
    and "fb = b2\<lparr>client := Some cl,
                  event := Some (if ctx (heap w ! b) = None then Suc (next_id w) else next_id w)\<rparr>"
    and "client_Call env cl (Some c0)
           \<lparr>Method = ''Target.setDiscoverTargets'', Params = Some [(''discover'', PBool True)]\<rparr>
           (trySlowmotion env fb ''Target.setDiscoverTargets'' e3) = ((r, cerr), e4)"
  shows "fst (ConnectE env b w) =
           Return (if rerr \<noteq> None \<and> lerr \<noteq> None then lerr
                   else if derr \<noteq> None then derr else cerr)
       \<and> (fst (ConnectE env b w) = Return None
            \<longleftrightarrow> (rerr = None \<or> lerr = None) \<and> derr = None \<and> cerr = None)
       \<and> calls (snd (ConnectE env b w)) =
           calls w @ [Resolve (controlURL (heap w ! b))]
             @ (if rerr = None then [] else [Launch])
             @ (if rerr \<noteq> None \<and> lerr \<noteq> None then []
                else Dial (Some c0) url #
                  (if derr \<noteq> None then []
                   else [Send cl (Some c0)
                           \<lparr>Method = ''Target.setDiscoverTargets'',
                             Params = Some [(''discover'', PBool True)]\<rparr>]))"
  using assms
  by (cases "ctx (heap w ! b)"; cases rerr; cases lerr; cases derr)
     (simp_all add: ConnectE_def initEvents_def Call_def WithCancel_def Let_def)


text \<open>The theorem on a new browser: with an endpoint that answers, with none but a launcher
  that works, and with neither.\<close>

theorem ConnectE_steps_witness:
  "0 < length (heap new_world)
   \<and> fst (ConnectE (stub accepts) 0 new_world) = Return None
   \<and> calls (snd (ConnectE (stub accepts) 0 new_world)) =
       [Resolve [], Dial (Some (cancelCtx 0 Background)) [],
        Send 0 (Some (cancelCtx 0 Background))
          \<lparr>Method = ''Target.setDiscoverTargets'', Params = Some [(''discover'', PBool True)]\<rparr>]
   \<and> fst (ConnectE (stub no_endpoint) 0 new_world) = Return None
   \<and> calls (snd (ConnectE (stub no_endpoint) 0 new_world)) =
       [Resolve [], Launch, Dial (Some (cancelCtx 0 Background)) ''ws://launched'',
        Send 0 (Some (cancelCtx 0 Background))
          \<lparr>Method = ''Target.setDiscoverTargets'', Params = Some [(''discover'', PBool True)]\<rparr>]
   \<and> fst (ConnectE (stub no_browser) 0 new_world) = Return (Some (Err ''no browser''))
   \<and> calls (snd (ConnectE (stub no_browser) 0 new_world)) = [Resolve [], Launch]"
proof -
  have b: "0 < length (heap new_world)"
    and c: "ctx (heap new_world ! 0) = None" and n: "next_id new_world = 0"
    and u: "controlURL (heap new_world ! 0) = []" and k: "calls new_world = []"
    by (simp_all add: new_world_def New_def empty_world_def)
  have c0: "cancelCtx 0 Background =
      (case ctx (heap new_world ! 0) of None \<Rightarrow> cancelCtx (next_id new_world) Background
       | Some c \<Rightarrow> c)"
    by (simp add: c n)
  note a = ConnectE_steps [OF b c0, where env = "stub accepts" and rerr = None and lerr = None
      and derr = None and cerr = None and url = "[]" and e = "[]" and ws = "[]"
      and u = "''ws://launched''" and cl = 0 and r = "js []"
      and ?e1.0 = "[]" and ?e2.0 = "[]" and ?e3.0 = "[]" and ?e4.0 = "[]", OF _ _ _ _ refl refl refl]
  note l = ConnectE_steps [OF b c0, where env = "stub no_endpoint"
      and rerr = "Some (Err ''no endpoint'')" and lerr = None
      and derr = None and cerr = None and url = "''ws://launched''" and e = "[]" and ws = "[]"
      and u = "''ws://launched''" and cl = 0 and r = "js []"
      and ?e1.0 = "[]" and ?e2.0 = "[]" and ?e3.0 = "[]" and ?e4.0 = "[]", OF _ _ _ _ refl refl refl]
  note f = ConnectE_steps [OF b c0, where env = "stub no_browser"
      and rerr = "Some (Err ''no endpoint'')" and lerr = "Some (Err ''no browser'')"
      and derr = None and cerr = None and url = "''ws://launched''" and e = "[]" and ws = "[]"
      and u = "''ws://launched''" and cl = 0 and r = "js []"
      and ?e1.0 = "[]" and ?e2.0 = "[]" and ?e3.0 = "[]" and ?e4.0 = "[]", OF _ _ _ _ refl refl refl]
  have r: "remote new_world = []" by (simp add: new_world_def New_def empty_world_def)
  from a have "fst (ConnectE (stub accepts) 0 new_world) = Return None
     \<and> calls (snd (ConnectE (stub accepts) 0 new_world)) =
       [Resolve [], Dial (Some (cancelCtx 0 Background)) [],
        Send 0 (Some (cancelCtx 0 Background))
          \<lparr>Method = ''Target.setDiscoverTargets'', Params = Some [(''discover'', PBool True)]\<rparr>]"
    by (simp add: u k r stub_simps)
  moreover from l have "fst (ConnectE (stub no_endpoint) 0 new_world) = Return None
     \<and> calls (snd (ConnectE (stub no_endpoint) 0 new_world)) =
       [Resolve [], Launch, Dial (Some (cancelCtx 0 Background)) ''ws://launched'',
        Send 0 (Some (cancelCtx 0 Background))
          \<lparr>Method = ''Target.setDiscoverTargets'', Params = Some [(''discover'', PBool True)]\<rparr>]"
    by (simp add: u k r stub_simps no_endpoint_def)
  moreover from f have "fst (ConnectE (stub no_browser) 0 new_world) = Return (Some (Err ''no browser''))
     \<and> calls (snd (ConnectE (stub no_browser) 0 new_world)) = [Resolve [], Launch]"
    by (simp add: u k r stub_simps no_browser_def)
  ultimately show ?thesis using b by blast
qed

section \<open>Waiting for events\<close>

lemma WaitEventE_eq:
  assumes "b < length (heap w)" and "ctx (heap w ! b) = Some parent"
  shows "WaitEventE b f w =
           (Return (length (waiters w), cancelCtx (next_id w) parent),
            w\<lparr>next_id := Suc (next_id w),
              waiters := waiters w @
                [\<lparr>wbrowser = b, observable = None, wctx = cancelCtx (next_id w) parent,
                  filter_fn = f, event_var = None, err_var = None, phase = Spawned\<rparr>]\<rparr>)"
  using assms by (simp add: WaitEventE_def WithCancel_def Let_def)

lemma settle_fields [simp]:
  "wctx (settle cs wt) = wctx wt" "filter_fn (settle cs wt) = filter_fn wt"
  "observable (settle cs wt) = observable wt" "event_var (settle cs wt) = event_var wt"
  "wbrowser (settle cs wt) = wbrowser wt"
  by (simp_all add: settle_def split: option.splits)

lemma inspect_fields [simp]:
  "wctx (inspect e wt) = wctx wt" "filter_fn (inspect e wt) = filter_fn wt"
  "observable (inspect e wt) = observable wt" "event_var (inspect e wt) = Some e"
  "wbrowser (inspect e wt) = wbrowser wt"
  by (simp_all add: inspect_def Let_def)

lemma heap_Start [simp]: "heap (Start i w) = heap w"
  by (simp add: Start_def Let_def split: option.splits)

lemma heap_Publish [simp]: "heap (Publish obs e w) = heap w"
  by (simp add: Publish_def)

lemma heap_finish [simp]: "heap (finish c er w) = heap w"
  by (simp add: finish_def Let_def)

lemma length_waiters_Start [simp]: "length (waiters (Start i w)) = length (waiters w)"
  by (simp add: Start_def Let_def split: option.splits)

lemma length_waiters_Publish [simp]: "length (waiters (Publish obs e w)) = length (waiters w)"
  by (simp add: Publish_def)

lemma length_waiters_finish [simp]: "length (waiters (finish c er w)) = length (waiters w)"
  by (simp add: finish_def Let_def)

lemma heap_step [simp]: "heap (step a w) = heap w"
  by (cases a)
     (simp_all add: Start_def Publish_def cancel_def expire_def finish_def Let_def
        split: option.splits)

lemma heap_run [simp]: "heap (run as w) = heap w"
  by (induction as arbitrary: w) simp_all

lemma length_waiters_step [simp]: "length (waiters (step a w)) = length (waiters w)"
  by (cases a)
     (simp_all add: Start_def Publish_def cancel_def expire_def finish_def Let_def
        split: option.splits)

lemma cancels_Start [simp]: "cancels (Start i w) = cancels w"
  by (simp add: Start_def Let_def split: option.splits)

lemma cancels_Publish [simp]: "cancels (Publish obs e w) = cancels w"
  by (simp add: Publish_def)

lemma waiter_Publish:
  "i < length (waiters w) \<Longrightarrow>
   waiters (Publish obs e w) ! i =
     (if phase (waiters w ! i) = Subscribed \<and> observable (waiters w ! i) = Some obs
      then inspect e (waiters w ! i) else waiters w ! i)"
  by (simp add: Publish_def)

lemma waiter_finish:
  "i < length (waiters w) \<Longrightarrow>
   waiters (finish c er w) ! i = settle (cancels w @ [(c, er)]) (waiters w ! i)"
  by (simp add: finish_def Let_def)

lemma waiter_Start_other:
  "i < length (waiters w) \<Longrightarrow> phase (waiters w ! i) \<noteq> Spawned \<Longrightarrow>
   waiters (Start j w) ! i = waiters w ! i"
  by (cases "j = i") (simp_all add: Start_def Let_def split: option.splits)

lemma waiter_Start_self:
  "i < length (waiters w) \<Longrightarrow> phase (waiters w ! i) = Spawned \<Longrightarrow>
   wbrowser (waiters w ! i) < length (heap w) \<Longrightarrow>
   event (heap w ! wbrowser (waiters w ! i)) = Some obs \<Longrightarrow>
   waiters (Start i w) ! i =
     settle (cancels w) ((waiters w ! i)\<lparr>observable := Some obs, phase := Subscribed\<rparr>)"
  by (simp add: Start_def Let_def)

lemma waiter_Start_spawned:
  "i < length (waiters w) \<Longrightarrow> phase (waiters w ! i) = Spawned \<Longrightarrow> j \<noteq> i \<Longrightarrow>
   waiters (Start j w) ! i = waiters w ! i"
  by (simp add: Start_def Let_def split: option.splits)

text \<open>A wait that has returned is never touched again.\<close>

lemma step_frozen:
  "i < length (waiters w) \<Longrightarrow> phase (waiters w ! i) = Returned \<Longrightarrow>
   waiters (step a w) ! i = waiters w ! i"
  by (cases a)
     (simp_all add: waiter_Publish waiter_finish waiter_Start_other cancel_def expire_def
        settle_def)

lemma run_frozen:
  "i < length (waiters w) \<Longrightarrow> phase (waiters w ! i) = Returned \<Longrightarrow>
   i < length (waiters (run as w)) \<and> waiters (run as w) ! i = waiters w ! i"
proof (induction as arbitrary: w)
  case Nil
  then show ?case by simp
next
  case (Cons a as)
  from Cons.prems have "i < length (waiters (step a w))"
    and "waiters (step a w) ! i = waiters w ! i"
    by (simp_all add: step_frozen)
  with Cons.IH [of "step a w"] Cons.prems show ?case by simp
qed

lemma wait_of_returned:
  "i < length (waiters w) \<Longrightarrow> phase (waiters w ! i) = Returned \<Longrightarrow>
   WaitEventE_wait i w = Some (event_var (waiters w ! i), err_var (waiters w ! i))"
  by (simp add: WaitEventE_wait_def Start_def Let_def)

text \<open>As long as no matching event is published on the observable of the browser, the wait
  has matched nothing.\<close>

lemma step_unmatched:
  assumes "unmatched b obs c f i w" and "\<forall>e. a = Published obs e \<longrightarrow> \<not> f e"
  shows "unmatched b obs c f i (step a w)"
proof (cases a)
  case (Started j)
  show ?thesis
  proof (cases "j = i \<and> phase (waiters w ! i) = Spawned")
    case True
    with assms(1) have "waiters (Start i w) ! i =
        settle (cancels w) ((waiters w ! i)\<lparr>observable := Some obs, phase := Subscribed\<rparr>)"
      by (intro waiter_Start_self) (simp_all add: unmatched_def)
    with assms(1) True Started show ?thesis
      by (auto simp: unmatched_def settle_def split: option.splits)
  next
    case False
    with assms(1) have "waiters (Start j w) ! i = waiters w ! i"
      by (cases "phase (waiters w ! i) = Spawned")
         (simp_all add: unmatched_def waiter_Start_spawned waiter_Start_other)
    with assms(1) Started show ?thesis by (simp add: unmatched_def)
  qed
next
  case (Published o' e)
  with assms show ?thesis
    by (auto simp: unmatched_def waiter_Publish inspect_def Let_def)
next
  case (Cancelled x)
  with assms(1) show ?thesis
    by (auto simp: unmatched_def cancel_def waiter_finish cancels_finish settle_def
          split: option.splits)
next
  case (Expired x)
  with assms(1) show ?thesis
    by (auto simp: unmatched_def expire_def waiter_finish cancels_finish settle_def
          split: option.splits)
qed

lemma run_unmatched:
  assumes "unmatched b obs c f i w" and "\<forall>e. Published obs e \<in> set as \<longrightarrow> \<not> f e"
  shows "unmatched b obs c f i (run as w)"
  using assms
proof (induction as arbitrary: w)
  case Nil
  then show ?case by simp
next
  case (Cons a as)
  have "unmatched b obs c f i (step a w)"
    using Cons.prems by (intro step_unmatched) auto
  then have "unmatched b obs c f i (run as (step a w))"
    using Cons.prems by (intro Cons.IH) auto
  then show ?case by simp
qed

text \<open>The cancel function of the wait calls it off, and then nothing changes what its
  accessor returns.\<close>

lemma cancel_calls_off:
  assumes "unmatched b obs c f i w" and "c \<noteq> Background"
  shows "called_off b obs c i (cancel c w)"
proof -
  have "ctx_Err (cancels w @ [(c, Canceled)]) c \<noteq> None"
    using chain_self [OF assms(2)] by (simp add: ctx_Err_append split: option.splits)
  with assms(1) show ?thesis
    by (auto simp: unmatched_def called_off_def cancel_def waiter_finish cancels_finish
          settle_def finish_def Let_def split: option.splits)
qed

lemma called_off_result:
  assumes "called_off b obs c i w"
  shows "\<not> waiting (waiters w ! i) \<and> (\<exists>ev er. WaitEventE_wait i w = Some (ev, Some er))"
proof (cases "phase (waiters w ! i) = Spawned")
  case True
  with assms have "waiters (Start i w) ! i =
      settle (cancels w) ((waiters w ! i)\<lparr>observable := Some obs, phase := Subscribed\<rparr>)"
    by (intro waiter_Start_self) (simp_all add: called_off_def)
  with assms True show ?thesis
    by (auto simp: called_off_def WaitEventE_wait_def Let_def settle_def waiting_def
          split: option.splits)
next
  case False
  with assms show ?thesis
    by (auto simp: called_off_def wait_of_returned waiting_def)
qed

lemma step_called_off:
  assumes "called_off b obs c i w"
  shows "called_off b obs c i (step a w) \<and> WaitEventE_wait i (step a w) = WaitEventE_wait i w"
proof (cases "phase (waiters w ! i) = Spawned")
  case False
  with assms have r: "phase (waiters w ! i) = Returned" and i: "i < length (waiters w)"
    by (auto simp: called_off_def)
  have same: "waiters (step a w) ! i = waiters w ! i" using i r by (rule step_frozen)
  have "ctx_Err (cancels (step a w)) c \<noteq> None"
    using assms
    by (cases a)
       (auto simp: called_off_def cancel_def expire_def cancels_finish ctx_Err_append
          split: option.splits)
  with assms same i r show ?thesis
    by (simp add: called_off_def wait_of_returned)
next
  case True
  from assms True have i: "i < length (waiters w)" and b: "wbrowser (waiters w ! i) < length (heap w)"
    and o: "event (heap w ! wbrowser (waiters w ! i)) = Some obs"
    and ev: "event_var (waiters w ! i) = None" and c: "wctx (waiters w ! i) = c"
    by (auto simp: called_off_def)
  from assms obtain er where er: "ctx_Err (cancels w) c = Some er"
    by (auto simp: called_off_def)
  have started: "waiters (Start i w') ! i =
        (waiters w ! i)\<lparr>observable := Some obs, phase := Returned, err_var := Some er\<rparr>"
    if a: "i < length (waiters w')" "waiters w' ! i = waiters w ! i" "heap w' = heap w"
      "ctx_Err (cancels w') c = Some er" for w'
  proof -
    have "waiters (Start i w') ! i =
        settle (cancels w') ((waiters w' ! i)\<lparr>observable := Some obs, phase := Subscribed\<rparr>)"
      using a True b o by (intro waiter_Start_self) simp_all
    then show ?thesis
      using a c by (simp add: settle_def)
  qed
  have now: "WaitEventE_wait i w = Some (None, Some er)"
    using started [of w] i er ev by (simp add: WaitEventE_wait_def Let_def)
  show ?thesis
  proof (cases a)
    case (Started j)
    show ?thesis
    proof (cases "j = i")
      case True
      have wt: "waiters (Start i w) ! i =
          (waiters w ! i)\<lparr>observable := Some obs, phase := Returned, err_var := Some er\<rparr>"
        using started [of w] i er by simp
      have "called_off b obs c i (Start i w)"
        using assms wt by (simp add: called_off_def)
      moreover have "WaitEventE_wait i (Start i w) = Some (None, Some er)"
        using wt i ev by (simp add: wait_of_returned)
      ultimately show ?thesis using Started True now by simp
    next
      case False
      have same: "waiters (Start j w) ! i = waiters w ! i"
        using i \<open>phase (waiters w ! i) = Spawned\<close> False by (simp add: waiter_Start_spawned)
      have len: "i < length (waiters (Start j w))"
        using i length_waiters_step [of "Started j" w] by simp
      have wt: "waiters (Start i (Start j w)) ! i =
          (waiters w ! i)\<lparr>observable := Some obs, phase := Returned, err_var := Some er\<rparr>"
        using started [of "Start j w"] len same er heap_step [of "Started j" w] by simp
      have "called_off b obs c i (Start j w)"
        using assms same len heap_step [of "Started j" w] by (simp add: called_off_def)
      moreover have "WaitEventE_wait i (Start j w) = Some (None, Some er)"
        using wt len ev length_waiters_step [of "Started i" "Start j w"]
        by (simp add: WaitEventE_wait_def Let_def)
      ultimately show ?thesis using Started now by simp
    qed
  next
    case (Published o' e)
    have same: "waiters (Publish o' e w) ! i = waiters w ! i"
      using i \<open>phase (waiters w ! i) = Spawned\<close> by (simp add: waiter_Publish)
    have len: "i < length (waiters (Publish o' e w))" using i by (simp add: Publish_def)
    have h: "heap (Publish o' e w) = heap w" by (simp add: Publish_def)
    have wt: "waiters (Start i (Publish o' e w)) ! i =
        (waiters w ! i)\<lparr>observable := Some obs, phase := Returned, err_var := Some er\<rparr>"
      using started [of "Publish o' e w"] len same er h by simp
    have "called_off b obs c i (Publish o' e w)"
      using assms same len h by (simp add: called_off_def)
    moreover have "WaitEventE_wait i (Publish o' e w) = Some (None, Some er)"
      using wt len ev length_waiters_step [of "Started i" "Publish o' e w"]
      by (simp add: WaitEventE_wait_def Let_def)
    ultimately show ?thesis using Published now by simp
  next
    case (Cancelled x)
    have f: "step a w = finish x Canceled w" using Cancelled by (simp add: cancel_def)
    have same: "waiters (finish x Canceled w) ! i = waiters w ! i"
      using i \<open>phase (waiters w ! i) = Spawned\<close> by (simp add: waiter_finish settle_def)
    have len: "i < length (waiters (finish x Canceled w))" using i by (simp add: finish_def Let_def)
    have h: "heap (finish x Canceled w) = heap w" by (simp add: finish_def Let_def)
    have e': "ctx_Err (cancels (finish x Canceled w)) c = Some er"
      using er by (simp add: cancels_finish ctx_Err_append)
    have wt: "waiters (Start i (finish x Canceled w)) ! i =
        (waiters w ! i)\<lparr>observable := Some obs, phase := Returned, err_var := Some er\<rparr>"
      using started [of "finish x Canceled w"] len same e' h by simp
    have "called_off b obs c i (finish x Canceled w)"
      using assms same len h e' by (simp add: called_off_def)
    moreover have "WaitEventE_wait i (finish x Canceled w) = Some (None, Some er)"
      using wt len ev length_waiters_step [of "Started i" "finish x Canceled w"]
      by (simp add: WaitEventE_wait_def Let_def)
    ultimately show ?thesis using f now by simp
  next
    case (Expired x)
    have f: "step a w = finish x DeadlineExceeded w" using Expired by (simp add: expire_def)
    have same: "waiters (finish x DeadlineExceeded w) ! i = waiters w ! i"
      using i \<open>phase (waiters w ! i) = Spawned\<close> by (simp add: waiter_finish settle_def)
    have len: "i < length (waiters (finish x DeadlineExceeded w))"
      using i by (simp add: finish_def Let_def)
    have h: "heap (finish x DeadlineExceeded w) = heap w" by (simp add: finish_def Let_def)
    have e': "ctx_Err (cancels (finish x DeadlineExceeded w)) c = Some er"
      using er by (simp add: cancels_finish ctx_Err_append)
    have wt: "waiters (Start i (finish x DeadlineExceeded w)) ! i =
        (waiters w ! i)\<lparr>observable := Some obs, phase := Returned, err_var := Some er\<rparr>"
      using started [of "finish x DeadlineExceeded w"] len same e' h by simp
    have "called_off b obs c i (finish x DeadlineExceeded w)"
      using assms same len h e' by (simp add: called_off_def)
    moreover have "WaitEventE_wait i (finish x DeadlineExceeded w) = Some (None, Some er)"
      using wt len ev length_waiters_step [of "Started i" "finish x DeadlineExceeded w"]
      by (simp add: WaitEventE_wait_def Let_def)
    ultimately show ?thesis using f now by simp
  qed
qed

lemma run_called_off:
  "called_off b obs c i w \<Longrightarrow>
   called_off b obs c i (run as w) \<and> WaitEventE_wait i (run as w) = WaitEventE_wait i w"
proof (induction as arbitrary: w)
  case Nil
  then show ?case by simp
next
  case (Cons a as)
  from step_called_off [OF Cons.prems, of a]
  have s: "called_off b obs c i (step a w)"
    and e: "WaitEventE_wait i (step a w) = WaitEventE_wait i w" by simp_all
  from Cons.IH [OF s] e show ?case by simp
qed


lemma run_publish_spawned:
  assumes "i < length (waiters w)" and "phase (waiters w ! i) = Spawned"
  shows "i < length (waiters (run (map (Published obs) es) w))
       \<and> waiters (run (map (Published obs) es) w) ! i = waiters w ! i
       \<and> cancels (run (map (Published obs) es) w) = cancels w"
  using assms
proof (induction es arbitrary: w)
  case Nil
  then show ?case by simp
next
  case (Cons e es)
  have "waiters (Publish obs e w) ! i = waiters w ! i"
    using Cons.prems by (simp add: waiter_Publish)
  moreover have "i < length (waiters (run (map (Published obs) es) (Publish obs e w)))
       \<and> waiters (run (map (Published obs) es) (Publish obs e w)) ! i
           = waiters (Publish obs e w) ! i
       \<and> cancels (run (map (Published obs) es) (Publish obs e w)) = cancels (Publish obs e w)"
    using Cons.prems by (intro Cons.IH) (simp_all add: waiter_Publish)
  ultimately show ?case by simp
qed

lemma run_publish_unmatched:
  assumes "i < length (waiters w)" and "phase (waiters w ! i) = Subscribed"
    and "observable (waiters w ! i) = Some obs"
    and "\<forall>e \<in> set evs. \<not> filter_fn (waiters w ! i) e"
  shows "i < length (waiters (run (map (Published obs) evs) w))
       \<and> waiters (run (map (Published obs) evs) w) ! i =
           (waiters w ! i)\<lparr>event_var := (if evs = [] then event_var (waiters w ! i)
                                          else Some (last evs))\<rparr>
       \<and> cancels (run (map (Published obs) evs) w) = cancels w"
  using assms
proof (induction evs arbitrary: w)
  case Nil
  then show ?case by simp
next
  case (Cons e evs)
  let ?w = "Publish obs e w"
  have i: "i < length (waiters ?w)" using Cons.prems(1) by simp
  have wt: "waiters ?w ! i = (waiters w ! i)\<lparr>event_var := Some e\<rparr>"
    using Cons.prems by (simp add: waiter_Publish inspect_def Let_def)
  have "i < length (waiters (run (map (Published obs) evs) ?w))
       \<and> waiters (run (map (Published obs) evs) ?w) ! i =
           (waiters ?w ! i)\<lparr>event_var := (if evs = [] then event_var (waiters ?w ! i)
                                          else Some (last evs))\<rparr>
       \<and> cancels (run (map (Published obs) evs) ?w) = cancels ?w"
    using i Cons.prems by (intro Cons.IH) (simp_all add: wt)
  then show ?case by (simp add: wt)
qed

text \<open>A wait whose scope is active: the events published before its goroutine subscribes
  (\<open>early\<close>) leave it untouched, and those published after (\<open>evs\<close>), none of which matches,
  leave it subscribed with the last of them in \<^verbatim>\<open>event\<close>.\<close>

lemma subscribed_after:
  assumes "b < length (heap w)" and "ctx (heap w ! b) = Some parent"
    and "event (heap w ! b) = Some obs"
    and "ctx_Err (cancels w) (cancelCtx (next_id w) parent) = None"
    and "\<forall>e \<in> set evs. \<not> f e"
    and "w1 = w\<lparr>next_id := Suc (next_id w),
                 waiters := waiters w @
                   [\<lparr>wbrowser = b, observable = None, wctx = cancelCtx (next_id w) parent,
                     filter_fn = f, event_var = None, err_var = None, phase = Spawned\<rparr>]\<rparr>"
    and "w2 = run (map (Published obs) evs)
                (Start (length (waiters w)) (run (map (Published obs) early) w1))"
  shows "length (waiters w) < length (waiters w2)
       \<and> waiters w2 ! length (waiters w) =
           \<lparr>wbrowser = b, observable = Some obs, wctx = cancelCtx (next_id w) parent,
             filter_fn = f, event_var = (if evs = [] then None else Some (last evs)),
             err_var = None, phase = Subscribed\<rparr>
       \<and> cancels w2 = cancels w"
proof -
  define i where "i = length (waiters w)"
  define c where "c = cancelCtx (next_id w) parent"
  define wt where "wt = \<lparr>wbrowser = b, observable = None, wctx = c, filter_fn = f,
                          event_var = None, err_var = None, phase = Spawned\<rparr>"
  define wE where "wE = run (map (Published obs) early) w1"
  define wS where "wS = Start i wE"
  have i1: "i < length (waiters w1)" and wt1: "waiters w1 ! i = wt"
    and h1: "heap w1 = heap w" and c1: "cancels w1 = cancels w"
    by (simp_all add: assms(6) i_def wt_def c_def)
  have p1: "phase (waiters w1 ! i) = Spawned" by (simp add: wt1 wt_def)
  from run_publish_spawned [OF i1 p1, of obs early]
  have iE: "i < length (waiters wE)" and wtE: "waiters wE ! i = wt"
    and cE: "cancels wE = cancels w" and hE: "heap wE = heap w"
    by (simp_all add: wE_def wt1 c1 h1)
  have "waiters wS ! i =
          settle (cancels wE) ((waiters wE ! i)\<lparr>observable := Some obs, phase := Subscribed\<rparr>)"
    unfolding wS_def using iE assms(1,3)
    by (intro waiter_Start_self) (simp_all add: wtE hE, simp_all add: wt_def)
  then have wtS: "waiters wS ! i = wt\<lparr>observable := Some obs, phase := Subscribed\<rparr>"
    using assms(4) by (simp add: wtE cE settle_def wt_def c_def)
  have iS: "i < length (waiters wS)" and cS: "cancels wS = cancels w"
    using iE by (simp_all add: wS_def cE)
  have "i < length (waiters (run (map (Published obs) evs) wS))
       \<and> waiters (run (map (Published obs) evs) wS) ! i =
           (waiters wS ! i)\<lparr>event_var := (if evs = [] then event_var (waiters wS ! i)
                                          else Some (last evs))\<rparr>
       \<and> cancels (run (map (Published obs) evs) wS) = cancels wS"
    using iS assms(5) by (intro run_publish_unmatched) (simp_all add: wtS, simp_all add: wt_def)
  then show ?thesis
    by (simp add: assms(7) wS_def [symmetric] wE_def [symmetric] i_def [symmetric] wtS cS)
       (simp add: wt_def c_def)
qed

text \<open>
  C10, as the code has it.  \<^verbatim>\<open>kit.All\<close> runs the wait in a goroutine, so the wait
  subscribes after \<open>WaitEventE\<close> has returned, and the events published before that
  (\<open>early\<close>) are not inspected, whether they match or not.  On a browser with a context
  and an observable, let the scope of the new wait be active when it is created, let
  the events \<open>evs\<close>, none of which the filter accepts, be published after the wait has
  subscribed, and let the cancel function be called.  The accessor, blocked until then,
  returns the error \<^verbatim>\<open>context.Canceled\<close> together with the last of \<open>evs\<close>, not nil,
  when there is one, and with a nil event when no event came after the subscription.
\<close>

theorem WaitEventE_keeps_last_event:
  assumes "b < length (heap w)" and "ctx (heap w ! b) = Some parent"
    and "event (heap w ! b) = Some obs"
    and "ctx_Err (cancels w) (cancelCtx (next_id w) parent) = None"
    and "\<forall>e \<in> set evs. \<not> f e"
  shows "\<exists>i c w1. WaitEventE b f w = (Return (i, c), w1)
           \<and> WaitEventE_wait i
                (run (map (Published obs) evs) (Start i (run (map (Published obs) early) w1)))
               = None
           \<and> WaitEventE_wait i
                (cancel c
                   (run (map (Published obs) evs) (Start i (run (map (Published obs) early) w1))))
               = Some (if evs = [] then None else Some (last evs), Some Canceled)"
proof -
  define i where "i = length (waiters w)"
  define c where "c = cancelCtx (next_id w) parent"
  define w1 where "w1 = w\<lparr>next_id := Suc (next_id w),
                 waiters := waiters w @
                   [\<lparr>wbrowser = b, observable = None, wctx = cancelCtx (next_id w) parent,
                     filter_fn = f, event_var = None, err_var = None, phase = Spawned\<rparr>]\<rparr>"
  define w2 where "w2 = run (map (Published obs) evs)
                          (Start (length (waiters w)) (run (map (Published obs) early) w1))"
  define wt where "wt = \<lparr>wbrowser = b, observable = Some obs, wctx = c,
             filter_fn = f, event_var = (if evs = [] then None else Some (last evs)),
             err_var = None, phase = Subscribed\<rparr>"
  have eq: "WaitEventE b f w = (Return (i, c), w1)"
    using WaitEventE_eq [OF assms(1,2), of f] by (simp add: i_def c_def w1_def)
  from subscribed_after [OF assms w1_def w2_def]
  have i2: "i < length (waiters w2)" and wt2: "waiters w2 ! i = wt" and c2: "cancels w2 = cancels w"
    by (simp_all add: i_def wt_def c_def)
  have "waiters (Start i w2) ! i = waiters w2 ! i"
    using i2 by (intro waiter_Start_other) (simp_all add: wt2 wt_def)
  then have blocked: "WaitEventE_wait i w2 = None"
    using i2 by (simp add: WaitEventE_wait_def Let_def wt2 wt_def)
  have e: "ctx_Err (cancels w @ [(c, Canceled)]) c = Some Canceled"
    using assms(4) by (simp add: ctx_Err_append c_def)
  have "waiters (cancel c w2) ! i = settle (cancels w @ [(c, Canceled)]) wt"
    using i2 by (simp add: cancel_def waiter_finish c2 wt2)
  also have "\<dots> = wt\<lparr>err_var := Some Canceled, phase := Returned\<rparr>"
    using e by (simp add: settle_def wt_def)
  finally have wt3: "waiters (cancel c w2) ! i = wt\<lparr>err_var := Some Canceled, phase := Returned\<rparr>" .
  have i3: "i < length (waiters (cancel c w2))" using i2 by (simp add: cancel_def)
  have "WaitEventE_wait i (cancel c w2)
          = Some (if evs = [] then None else Some (last evs), Some Canceled)"
    using i3 by (simp add: wait_of_returned wt3 wt_def)
  with eq blocked show ?thesis unfolding w2_def i_def [symmetric] by blast
qed

lemma waiting_world_eq:
  "WaitEventE 0 (Method_filter (stub accepts) ''B'') connected_world
     = (Return (0, cancelCtx 2 (cancelCtx 0 Background)), waiting_world)"
  by (simp add: waiting_world_def connected_world_def WaitEventE_def WithCancel_def Let_def)

lemma waiting_world_literal:
  "waiting_world = connected_world\<lparr>next_id := 3,
     waiters := [\<lparr>wbrowser = 0, observable = None, wctx = cancelCtx 2 (cancelCtx 0 Background),
                  filter_fn = Method_filter (stub accepts) ''B'',
                  event_var = None, err_var = None, phase = Spawned\<rparr>]\<rparr>"
  by (simp add: waiting_world_def connected_world_def WaitEventE_def WithCancel_def Let_def)

lemmas wait_steps = connected_world_def Start_def Publish_def inspect_def settle_def cancel_def
  finish_def WaitEventE_wait_def stub_def Let_def


text \<open>The theorem on a wait for \<open>B\<close>: \<open>B\<close> is published before the wait subscribes and is
  missed, \<open>A\<close> and \<open>C\<close> are published after, then the wait is cancelled.\<close>

theorem WaitEventE_keeps_last_event_witness:
  "0 < length (heap connected_world)
   \<and> ctx (heap connected_world ! 0) = Some (cancelCtx 0 Background)
   \<and> event (heap connected_world ! 0) = Some 1
   \<and> ctx_Err (cancels connected_world) (cancelCtx (next_id connected_world) (cancelCtx 0 Background))
       = None
   \<and> \<not> Method_filter (stub accepts) ''B'' ''A''
   \<and> \<not> Method_filter (stub accepts) ''B'' ''C''
   \<and> WaitEventE_wait 0
        (cancel (cancelCtx 2 (cancelCtx 0 Background))
           (run (map (Published 1) [''A'', ''C''])
              (Start 0 (run (map (Published 1) [''B'']) waiting_world))))
       = Some (Some ''C'', Some Canceled)"
proof -
  have b: "0 < length (heap connected_world)"
    and c: "ctx (heap connected_world ! 0) = Some (cancelCtx 0 Background)"
    and o: "event (heap connected_world ! 0) = Some 1"
    and a: "ctx_Err (cancels connected_world)
              (cancelCtx (next_id connected_world) (cancelCtx 0 Background)) = None"
    by (simp_all add: connected_world_def)
  have f: "\<not> Method_filter (stub accepts) ''B'' ''A''" "\<not> Method_filter (stub accepts) ''B'' ''C''"
    by (simp_all add: stub_def)
  then have evs: "\<forall>e \<in> set [''A'', ''C'']. \<not> Method_filter (stub accepts) ''B'' e" by simp
  from WaitEventE_keeps_last_event [OF b c o a evs, of "[''B'']"]
  have "WaitEventE_wait 0
        (cancel (cancelCtx 2 (cancelCtx 0 Background))
           (run (map (Published 1) [''A'', ''C''])
              (Start 0 (run (map (Published 1) [''B'']) waiting_world))))
       = Some (Some ''C'', Some Canceled)"
    by (auto simp: waiting_world_eq)
  with b c o a f show ?thesis by simp
qed

text \<open>C10 as stated fails: \<open>WaitEventE\<close> returns, the events \<open>A\<close> and \<open>C\<close>, which do not
  match, are published before the goroutine of the wait has subscribed, and the wait is
  cancelled; the accessor returns a nil event with the cancellation error.\<close>

theorem WaitEventE_misses_early_events:
  "WaitEventE 0 (Method_filter (stub accepts) ''B'') connected_world
     = (Return (0, cancelCtx 2 (cancelCtx 0 Background)), waiting_world)
   \<and> \<not> Method_filter (stub accepts) ''B'' ''A''
   \<and> \<not> Method_filter (stub accepts) ''B'' ''C''
   \<and> WaitEventE_wait 0
        (cancel (cancelCtx 2 (cancelCtx 0 Background))
           (run [Published 1 ''A'', Published 1 ''C''] waiting_world))
       = Some (None, Some Canceled)"
proof -
  have "WaitEventE_wait 0
        (cancel (cancelCtx 2 (cancelCtx 0 Background))
           (run [Published 1 ''A'', Published 1 ''C''] waiting_world))
       = Some (None, Some Canceled)"
    by (simp add: waiting_world_literal wait_steps)
  moreover have "\<not> Method_filter (stub accepts) ''B'' ''A''"
    "\<not> Method_filter (stub accepts) ''B'' ''C''"
    by (simp_all add: stub_def)
  ultimately show ?thesis using waiting_world_eq by simp
qed

section \<open>The convenience forms\<close>

text \<open>
  C9.  Each convenience form of the code is the convenience form of the specification
  applied to its explicit-failure form, and leaves the world the explicit form leaves:
  \<open>Connect\<close> returns the browser and \<open>Close\<close> nothing when the explicit form returns
  nil, \<open>Page\<close> and \<open>Pages\<close> return the value of the explicit form, and each panics
  with the error otherwise.  \<open>WaitEvent\<close> is \<open>WaitEventE\<close> on the filter \<open>Method(name)\<close>,
  with the same cancel function, and its accessor is the accessor of \<open>WaitEventE\<close> with
  the error turned into a panic.
\<close>

theorem convenience_forms:
  "Connect env b w = (convenience (map_outcome (Pair b) (fst (ConnectE env b w))), snd (ConnectE env b w))
   \<and> Close env b w = (convenience (map_outcome (Pair ()) (fst (CloseE env b w))), snd (CloseE env b w))
   \<and> Page env b url w = (convenience (fst (PageE env b url w)), snd (PageE env b url w))
   \<and> Pages env b w = (convenience (fst (PagesE env b w)), snd (PagesE env b w))
   \<and> WaitEvent env b name w = WaitEventE b (Method_filter env name) w
   \<and> WaitEvent_wait i w = map_option abort_on_failure (WaitEventE_wait i w)"
proof (intro conjI)
  show "Connect env b w = (convenience (map_outcome (Pair b) (fst (ConnectE env b w))), snd (ConnectE env b w))"
    by (cases "ConnectE env b w")
       (auto simp: Connect_def convenience_def abort_on_failure_def kit_E_def
             split: outcome.splits option.splits)
  show "Close env b w = (convenience (map_outcome (Pair ()) (fst (CloseE env b w))), snd (CloseE env b w))"
    by (cases "CloseE env b w")
       (auto simp: Close_def convenience_def abort_on_failure_def kit_E_def
             split: outcome.splits option.splits)
  show "Page env b url w = (convenience (fst (PageE env b url w)), snd (PageE env b url w))"
    by (cases "PageE env b url w")
       (auto simp: Page_def convenience_def abort_on_failure_def kit_E_def
             split: outcome.splits option.splits)
  show "Pages env b w = (convenience (fst (PagesE env b w)), snd (PagesE env b w))"
    by (cases "PagesE env b w")
       (auto simp: Pages_def convenience_def abort_on_failure_def kit_E_def
             split: outcome.splits option.splits)
  show "WaitEvent env b name w = WaitEventE b (Method_filter env name) w"
    by (simp add: WaitEvent_def)
  show "WaitEvent_wait i w = map_option abort_on_failure (WaitEventE_wait i w)"
    by (auto simp: WaitEvent_wait_def abort_on_failure_def kit_E_def
             split: outcome.splits option.splits)
qed

text \<open>The theorem on the stubs: a page is returned, a rejected navigation and a closed
  connection abort with their errors, a connection returns the browser.\<close>

theorem convenience_forms_witness:
  "fst (Page (stub accepts) 0 ''https://example.com'' connected_world)
     = Return (Some \<lparr>Page.ctx = Some (cancelCtx 0 Background), browser = 0, TargetID = ''T1''\<rparr>)
   \<and> fst (Page (stub navigate_rejected) 0 ''https://example.com'' connected_world)
     = Panic (Raised (Err ''navigate rejected''))
   \<and> fst (Close (stub closed_connection) 0 connected_world)
     = Panic (Raised (Err ''connection closed''))
   \<and> fst (Connect (stub accepts) 0 new_world) = Return 0"
proof -
  have p: "fst (PageE (stub accepts) 0 ''https://example.com'' connected_world)
     = Return (Some \<lparr>Page.ctx = Some (cancelCtx 0 Background), browser = 0, TargetID = ''T1''\<rparr>, None)"
    by (simp add: connected_world_def stub_simps Get_def PageE_def Call_def page_def Let_def)
  have n: "fst (PageE (stub navigate_rejected) 0 ''https://example.com'' connected_world)
     = Return (None, Some (Err ''navigate rejected''))"
    by (simp add: connected_world_def stub_simps Get_def PageE_def Call_def page_def Let_def)
  have c: "fst (CloseE (stub closed_connection) 0 connected_world)
     = Return (Some (Err ''connection closed''))"
    by (simp add: connected_world_def stub_simps CloseE_def Call_def Let_def)
  have k: "fst (ConnectE (stub accepts) 0 new_world) = Return None"
    by (simp add: new_world_def New_def empty_world_def stub_simps ConnectE_def initEvents_def
        Call_def WithCancel_def Let_def)
  from convenience_forms [of "stub accepts" 0 connected_world "''https://example.com''"]
  have "fst (Page (stub accepts) 0 ''https://example.com'' connected_world)
     = Return (Some \<lparr>Page.ctx = Some (cancelCtx 0 Background), browser = 0, TargetID = ''T1''\<rparr>)"
    by (simp add: p convenience_def abort_on_failure_def)
  moreover
  from convenience_forms [of "stub navigate_rejected" 0 connected_world "''https://example.com''"]
  have "fst (Page (stub navigate_rejected) 0 ''https://example.com'' connected_world)
     = Panic (Raised (Err ''navigate rejected''))"
    by (simp add: n convenience_def abort_on_failure_def)
  moreover
  from convenience_forms [of "stub closed_connection" 0 connected_world]
  have "fst (Close (stub closed_connection) 0 connected_world)
     = Panic (Raised (Err ''connection closed''))"
    by (simp add: c convenience_def abort_on_failure_def)
  moreover
  from convenience_forms [of "stub accepts" 0 new_world]
  have "fst (Connect (stub accepts) 0 new_world) = Return 0"
    by (simp add: k convenience_def abort_on_failure_def)
  ultimately show ?thesis by blast
qed

section \<open>Further properties of browser.go\<close>

text \<open>
  The configuration setters write one field of the receiver in place and return the
  receiver: no browser is allocated.
\<close>

theorem setters_in_place:
  assumes "b < length (heap w)"
  shows "ControlURL b url w = (Return b, w\<lparr>heap := (heap w)[b := (heap w ! b)\<lparr>controlURL := url\<rparr>]\<rparr>)
       \<and> Viewport b opts w = (Return b, w\<lparr>heap := (heap w)[b := (heap w ! b)\<lparr>viewport := opts\<rparr>]\<rparr>)
       \<and> Slowmotion b delay w = (Return b, w\<lparr>heap := (heap w)[b := (heap w ! b)\<lparr>slowmotion := delay\<rparr>]\<rparr>)
       \<and> Trace b enable w = (Return b, w\<lparr>heap := (heap w)[b := (heap w ! b)\<lparr>trace := enable\<rparr>]\<rparr>)
       \<and> length (heap (snd (ControlURL b url w))) = length (heap w)
       \<and> length (heap (snd (Viewport b opts w))) = length (heap w)
       \<and> length (heap (snd (Slowmotion b delay w))) = length (heap w)
       \<and> length (heap (snd (Trace b enable w))) = length (heap w)"
  using assms by (simp add: ControlURL_def Viewport_def Slowmotion_def Trace_def)

text \<open>The theorem at the connected browser.\<close>

theorem setters_in_place_witness:
  "0 < length (heap connected_world)
   \<and> fst (Slowmotion 0 7 connected_world) = Return 0
   \<and> slowmotion (heap (snd (Slowmotion 0 7 connected_world)) ! 0) = 7
   \<and> length (heap (snd (Slowmotion 0 7 connected_world))) = 1"
  using setters_in_place [of 0 connected_world "[]" None 7 False]
  by (simp add: connected_world_def)

text \<open>
  After \<open>Timeout\<close> the receiver and the derived browser both hold, in \<open>timeoutCancel\<close>,
  the cancel function of the scope of the derived browser; calling it makes that scope
  done, and a timeout that is not positive has made it done already.
\<close>

theorem Timeout_cancel_stored:
  assumes "b < length (heap w)" and "ctx (heap w ! b) = Some parent"
    and "Timeout b d w = (Return n, w1)"
  shows "timeoutCancel (heap w1 ! b) = ctx (heap w1 ! n)
       \<and> timeoutCancel (heap w1 ! n) = ctx (heap w1 ! n)
       \<and> ctx (heap w1 ! n) = Some (timerCtx (next_id w) d parent)
       \<and> ctx_Err (cancels (cancel (timerCtx (next_id w) d parent) w2))
            (timerCtx (next_id w) d parent) \<noteq> None
       \<and> (d \<le> 0 \<longrightarrow> ctx_Err (cancels w1) (timerCtx (next_id w) d parent) \<noteq> None)"
proof -
  let ?c = "timerCtx (next_id w) d parent"
  from assms have n: "n = length (heap w)"
    and h: "heap w1 = (heap w)[b := (heap w ! b)\<lparr>timeoutCancel := Some ?c\<rparr>]
               @ [(heap w ! b)\<lparr>timeoutCancel := Some ?c, ctx := Some ?c\<rparr>]"
    and c: "cancels w1 = (if d \<le> 0 then cancels w @ [(?c, DeadlineExceeded)] else cancels w)"
    by (auto simp: Timeout_eq)
  have "?c \<in> set (chain ?c)" by simp
  then have "ctx_Err (cancels (cancel ?c w2)) ?c \<noteq> None"
    and "d \<le> 0 \<longrightarrow> ctx_Err (cancels w1) ?c \<noteq> None"
    by (simp_all add: cancel_def cancels_finish ctx_Err_append c split: option.splits)
  then show ?thesis using assms(1) by (simp add: n h nth_append)
qed

text \<open>The theorem at the connected browser, with a timeout of 5.\<close>

theorem Timeout_cancel_stored_witness:
  "0 < length (heap connected_world)
   \<and> ctx (heap connected_world ! 0) = Some (cancelCtx 0 Background)
   \<and> Timeout 0 5 connected_world = (Return 1, snd (Timeout 0 5 connected_world))
   \<and> timeoutCancel (heap (snd (Timeout 0 5 connected_world)) ! 0)
       = Some (timerCtx 2 5 (cancelCtx 0 Background))
   \<and> timeoutCancel (heap (snd (Timeout 0 5 connected_world)) ! 1)
       = Some (timerCtx 2 5 (cancelCtx 0 Background))"
proof -
  have b: "0 < length (heap connected_world)"
    and c: "ctx (heap connected_world ! 0) = Some (cancelCtx 0 Background)"
    and n: "next_id connected_world = 2"
    by (simp_all add: connected_world_def)
  have t: "Timeout 0 5 connected_world = (Return 1, snd (Timeout 0 5 connected_world))"
    by (simp add: Timeout_eq [OF b c]) (simp add: connected_world_def)
  from Timeout_cancel_stored [OF b c t, of connected_world] b c t show ?thesis by (auto simp: n)
qed


text \<open>
  \<open>ConnectE\<close> creates a root scope exactly when the browser has no context, and then
  keeps its cancel function in \<open>close\<close>, whatever the later steps return; a browser that
  has a context keeps it, and its \<open>close\<close>.  \<open>ConnectE\<close> cancels nothing.
\<close>

theorem ConnectE_root_scope:
  assumes "b < length (heap w)"
  shows "b < length (heap (snd (ConnectE env b w)))
       \<and> (ctx (heap w ! b) = None \<longrightarrow>
            ctx (heap (snd (ConnectE env b w)) ! b) = Some (cancelCtx (next_id w) Background)
            \<and> close (heap (snd (ConnectE env b w)) ! b) = Some (cancelCtx (next_id w) Background))
       \<and> (ctx (heap w ! b) \<noteq> None \<longrightarrow>
            ctx (heap (snd (ConnectE env b w)) ! b) = ctx (heap w ! b)
            \<and> close (heap (snd (ConnectE env b w)) ! b) = close (heap w ! b))
       \<and> cancels (snd (ConnectE env b w)) = cancels w"
proof -
  define c0 where "c0 = (case ctx (heap w ! b) of None \<Rightarrow> cancelCtx (next_id w) Background | Some c \<Rightarrow> c)"
  obtain ws rerr e1 where r: "launcher_GetWebSocketDebuggerURL env (controlURL (heap w ! b)) (remote w)
                                = ((ws, rerr), e1)"
    by (metis surj_pair)
  obtain u lerr e2 where l: "launcher_LaunchE env e1 = ((u, lerr), e2)"
    by (metis surj_pair)
  define url where "url = (if rerr = None then controlURL (heap w ! b) else u)"
  define e where "e = (if rerr = None then e1 else e2)"
  obtain cl derr e3 where d: "cdp_New env (Some c0) url e = ((cl, derr), e3)"
    by (metis surj_pair)
  define b1 where "b1 = (if ctx (heap w ! b) = None
               then (heap w ! b)\<lparr>ctx := Some c0, close := Some c0\<rparr> else heap w ! b)"
  define b2 where "b2 = (if rerr = None then b1 else b1\<lparr>controlURL := u\<rparr>)"
  define fb where "fb = b2\<lparr>client := Some cl,
                  event := Some (if ctx (heap w ! b) = None then Suc (next_id w) else next_id w)\<rparr>"
  obtain res cerr e4 where k: "client_Call env cl (Some c0)
           \<lparr>Method = ''Target.setDiscoverTargets'', Params = Some [(''discover'', PBool True)]\<rparr>
           (trySlowmotion env fb ''Target.setDiscoverTargets'' e3) = ((res, cerr), e4)"
    by (metis surj_pair)
  show ?thesis
    using assms r l d k
    unfolding c0_def url_def e_def b1_def b2_def fb_def
    by (cases "ctx (heap w ! b)"; cases rerr; cases lerr; cases derr)
       (simp_all add: ConnectE_def initEvents_def Call_def WithCancel_def Let_def)
qed

text \<open>The theorem on a new browser whose connection fails: the root scope is there.\<close>

theorem ConnectE_root_scope_witness:
  "0 < length (heap new_world)
   \<and> ctx (heap new_world ! 0) = None
   \<and> ctx (heap (snd (ConnectE (stub no_browser) 0 new_world)) ! 0) = Some (cancelCtx 0 Background)
   \<and> close (heap (snd (ConnectE (stub no_browser) 0 new_world)) ! 0) = Some (cancelCtx 0 Background)"
proof -
  have b: "0 < length (heap new_world)" and c: "ctx (heap new_world ! 0) = None"
    and n: "next_id new_world = 0"
    by (simp_all add: new_world_def New_def empty_world_def)
  from ConnectE_root_scope [OF b, of "stub no_browser"] b c show ?thesis by (simp add: n)
qed

text \<open>
  When the create-target call fails, \<open>PageE\<close> returns a nil page with the error of the
  call, and the call is all it issued.
\<close>

theorem PageE_create_failure:
  assumes "b < length (heap w)" and "client (heap w ! b) = Some cl"
    and "client_Call env cl (ctx (heap w ! b))
           \<lparr>Method = ''Target.createTarget'', Params = Some [(''url'', PString ''about:blank'')]\<rparr>
           (trySlowmotion env (heap w ! b) ''Target.createTarget'' (remote w)) = ((target, Some er), e1)"
  shows "PageE env b url w =
           (Return (None, Some er),
            w\<lparr>remote := e1,
              calls := calls w @
                [Send cl (ctx (heap w ! b))
                   \<lparr>Method = ''Target.createTarget'',
                     Params = Some [(''url'', PString ''about:blank'')]\<rparr>]\<rparr>)"
  using assms by (simp add: PageE_def Call_eq)

text \<open>The theorem on a closed connection.\<close>

theorem PageE_create_failure_witness:
  "0 < length (heap connected_world)
   \<and> client (heap connected_world ! 0) = Some 0
   \<and> fst (PageE (stub closed_connection) 0 ''https://example.com'' connected_world)
       = Return (None, Some (Err ''connection closed''))
   \<and> calls (snd (PageE (stub closed_connection) 0 ''https://example.com'' connected_world))
       = [Send 0 (Some (cancelCtx 0 Background))
            \<lparr>Method = ''Target.createTarget'', Params = Some [(''url'', PString ''about:blank'')]\<rparr>]"
proof -
  have b: "0 < length (heap connected_world)" and cl: "client (heap connected_world ! 0) = Some 0"
    and c: "ctx (heap connected_world ! 0) = Some (cancelCtx 0 Background)"
    and k: "calls connected_world = []"
    by (simp_all add: connected_world_def)
  have call: "client_Call (stub closed_connection) 0 (ctx (heap connected_world ! 0))
           \<lparr>Method = ''Target.createTarget'', Params = Some [(''url'', PString ''about:blank'')]\<rparr>
           (trySlowmotion (stub closed_connection) (heap connected_world ! 0) ''Target.createTarget''
              (remote connected_world)) = ((js [], Some (Err ''connection closed'')), [])"
    by (simp add: connected_world_def stub_simps)
  from PageE_create_failure [OF b cl call, of "''https://example.com''"] b cl
  show ?thesis by (simp add: c k)
qed

text \<open>
  When the call \<^verbatim>\<open>Target.getTargets\<close> fails, \<open>PagesE\<close> returns a nil list with the
  error of the call, and the call is all it issued.
\<close>

theorem PagesE_call_failure:
  assumes "b < length (heap w)" and "client (heap w ! b) = Some cl"
    and "client_Call env cl (ctx (heap w ! b)) \<lparr>Method = ''Target.getTargets'', Params = None\<rparr>
           (trySlowmotion env (heap w ! b) ''Target.getTargets'' (remote w)) = ((list, Some er), e1)"
  shows "PagesE env b w =
           (Return ([], Some er),
            w\<lparr>remote := e1,
              calls := calls w @
                [Send cl (ctx (heap w ! b)) \<lparr>Method = ''Target.getTargets'', Params = None\<rparr>]\<rparr>)"
  using assms by (simp add: PagesE_def Call_eq)

text \<open>The theorem on a closed connection.\<close>

theorem PagesE_call_failure_witness:
  "0 < length (heap listed_world)
   \<and> client (heap listed_world ! 0) = Some 0
   \<and> fst (PagesE (stub closed_connection) 0 listed_world) = Return ([], Some (Err ''connection closed''))"
proof -
  have b: "0 < length (heap listed_world)" and cl: "client (heap listed_world ! 0) = Some 0"
    by (simp_all add: listed_world_def connected_world_def)
  have call: "client_Call (stub closed_connection) 0 (ctx (heap listed_world ! 0))
           \<lparr>Method = ''Target.getTargets'', Params = None\<rparr>
           (trySlowmotion (stub closed_connection) (heap listed_world ! 0) ''Target.getTargets''
              (remote listed_world)) = ((js [], Some (Err ''connection closed'')), remote listed_world)"
    by (simp add: listed_world_def connected_world_def stub_simps)
  from PagesE_call_failure [OF b cl call] b cl show ?thesis by simp
qed

text \<open>
  A wait whose scope is active when it is created misses the events published before
  its goroutine subscribes (\<open>early\<close>), stays blocked while the events published after
  that do not match, returns the first event that matches with a nil error, and returns
  the same whatever happens afterwards.
\<close>

theorem WaitEventE_first_match:
  assumes "b < length (heap w)" and "ctx (heap w ! b) = Some parent"
    and "event (heap w ! b) = Some obs"
    and "ctx_Err (cancels w) (cancelCtx (next_id w) parent) = None"
    and "\<forall>e \<in> set evs. \<not> f e" and "f m"
  shows "\<exists>i c w1. WaitEventE b f w = (Return (i, c), w1)
           \<and> WaitEventE_wait i
                (run (map (Published obs) evs) (Start i (run (map (Published obs) early) w1)))
               = None
           \<and> WaitEventE_wait i
                (Publish obs m
                   (run (map (Published obs) evs) (Start i (run (map (Published obs) early) w1))))
               = Some (Some m, None)
           \<and> WaitEventE_wait i
                (run post
                   (Publish obs m
                      (run (map (Published obs) evs)
                         (Start i (run (map (Published obs) early) w1)))))
               = Some (Some m, None)"
proof -
  define i where "i = length (waiters w)"
  define c where "c = cancelCtx (next_id w) parent"
  define w1 where "w1 = w\<lparr>next_id := Suc (next_id w),
                 waiters := waiters w @
                   [\<lparr>wbrowser = b, observable = None, wctx = cancelCtx (next_id w) parent,
                     filter_fn = f, event_var = None, err_var = None, phase = Spawned\<rparr>]\<rparr>"
  define w2 where "w2 = run (map (Published obs) evs)
                          (Start (length (waiters w)) (run (map (Published obs) early) w1))"
  define wt where "wt = \<lparr>wbrowser = b, observable = Some obs, wctx = c,
             filter_fn = f, event_var = (if evs = [] then None else Some (last evs)),
             err_var = None, phase = Subscribed\<rparr>"
  have eq: "WaitEventE b f w = (Return (i, c), w1)"
    using WaitEventE_eq [OF assms(1,2), of f] by (simp add: i_def c_def w1_def)
  from subscribed_after [OF assms(1,2,3,4,5) w1_def w2_def]
  have i2: "i < length (waiters w2)" and wt2: "waiters w2 ! i = wt"
    by (simp_all add: i_def wt_def c_def)
  have "waiters (Start i w2) ! i = waiters w2 ! i"
    using i2 by (intro waiter_Start_other) (simp_all add: wt2 wt_def)
  then have blocked: "WaitEventE_wait i w2 = None"
    using i2 by (simp add: WaitEventE_wait_def Let_def wt2 wt_def)
  have i3: "i < length (waiters (Publish obs m w2))" using i2 by simp
  have wt3: "waiters (Publish obs m w2) ! i =
               wt\<lparr>event_var := Some m, err_var := None, phase := Returned\<rparr>"
    using i2 assms(6) by (simp add: waiter_Publish wt2 inspect_def Let_def wt_def)
  have p3: "phase (waiters (Publish obs m w2) ! i) = Returned" by (simp add: wt3)
  have matched: "WaitEventE_wait i (Publish obs m w2) = Some (Some m, None)"
    using i3 p3 by (simp add: wait_of_returned wt3 wt_def)
  from run_frozen [OF i3 p3, of post]
  have later: "WaitEventE_wait i (run post (Publish obs m w2)) = Some (Some m, None)"
    using p3 by (simp add: wait_of_returned wt3 wt_def)
  from eq blocked matched later show ?thesis unfolding w2_def i_def [symmetric] by blast
qed

text \<open>The theorem on a wait for \<open>B\<close>: the wait subscribes, then \<open>A\<close> and \<open>B\<close> are
  published.\<close>

theorem WaitEventE_first_match_witness:
  "0 < length (heap connected_world)
   \<and> ctx (heap connected_world ! 0) = Some (cancelCtx 0 Background)
   \<and> event (heap connected_world ! 0) = Some 1
   \<and> \<not> Method_filter (stub accepts) ''B'' ''A''
   \<and> Method_filter (stub accepts) ''B'' ''B''
   \<and> WaitEventE_wait 0
        (Publish 1 ''B'' (run (map (Published 1) [''A'']) (Start 0 (run (map (Published 1) [])
           waiting_world))))
       = Some (Some ''B'', None)"
proof -
  have b: "0 < length (heap connected_world)"
    and c: "ctx (heap connected_world ! 0) = Some (cancelCtx 0 Background)"
    and o: "event (heap connected_world ! 0) = Some 1"
    and a: "ctx_Err (cancels connected_world)
              (cancelCtx (next_id connected_world) (cancelCtx 0 Background)) = None"
    by (simp_all add: connected_world_def)
  have f: "\<not> Method_filter (stub accepts) ''B'' ''A''" and m: "Method_filter (stub accepts) ''B'' ''B''"
    by (simp_all add: stub_def)
  from f have evs: "\<forall>e \<in> set [''A'']. \<not> Method_filter (stub accepts) ''B'' e" by simp
  from WaitEventE_first_match [OF b c o a evs m, of "[]" "[]"]
  have "WaitEventE_wait 0
        (Publish 1 ''B'' (run (map (Published 1) [''A'']) (Start 0 (run (map (Published 1) [])
           waiting_world))))
       = Some (Some ''B'', None)"
    by (auto simp: waiting_world_eq)
  with b c o f m show ?thesis by simp
qed

end
